theory Spec2Isabelle
  imports Complex_Main "HOL-Library.Sublist" "HOL-Library.Log_Nat"
begin

section \<open>Python values, exceptions and effects\<close>

text \<open>
  The module \<open>parlai/mturk/core/setup_aws_ec2.py\<close> talks to a cloud provider through
  client objects, prints progress messages and raises exceptions. The embedding makes
  all three explicit.

  \<^item> An exception is a value of \<open>py_error\<close>; a computation returns \<open>py_error + 'a\<close>
    with \<open>Inl\<close> for a raised exception. \<open>ClientError code\<close> is botocore's
    \<open>ClientError\<close> with \<open>e.response['Error']['Code'] = code\<close>; \<open>SystemExit\<close> is what
    Python's \<open>quit()\<close> raises; \<open>OtherError\<close> stands for any exception that is not a
    \<open>ClientError\<close> (a connection failure, say).
  \<^item> The provider is a record of operations on an abstract world \<open>'w\<close>; every operation
    returns its response together with the next world.
  \<^item> A run carries the world and the list of events (provider calls and printed lines)
    issued so far, in order.
  \<^item> Python's numbers are modelled as they are: an \<open>int\<close> is an unbounded integer and a
    \<open>float\<close> is an IEEE 754 double, with every product rounded to the nearest double.
\<close>

datatype py_error =
    ClientError string
  | IndexError
  | KeyError
  | NameError string
  | TypeError
  | OverflowError
  | SystemExit
  | OtherError string

record db_instance =
  DBInstanceClass :: string
  DBInstanceStatus :: string
  Endpoint :: "string option"

record ip_permission =
  IpProtocol :: string
  FromPort :: nat
  ToPort :: nat
  IpRanges :: "string list"
  Ipv6Ranges :: "string list"

record db_request =
  DBInstanceIdentifier :: string
  AllocatedStorage :: nat
  DBName :: string
  Engine :: string
  StorageType :: string
  MasterUsername :: string
  MasterUserPassword :: string
  VpcSecurityGroupIds :: "string option list"
  RequestedClass :: string

datatype api_call =
    DescribeVpcs
  | CreateSecurityGroup string string string
  | AuthorizeSecurityGroupIngress string ip_permission
  | DescribeSecurityGroups "string list"
  | DeleteSecurityGroup string string
  | CreateDBInstance db_request
  | DescribeDBInstances string
  | DeleteDBInstance string
  | Sleep nat
  | SetupDatabaseEngine string string string string
  | CheckDatabaseHealth
  | InitDatabase
  | GetAccountBalance bool
  | DetachRolePolicy string string
  | DeleteRole string

datatype event = Call api_call | Print string

subsection \<open>Numbers\<close>

text \<open>
  A finite double is written \<open>Finite s m e\<close> and stands for \<open>(-1)^s * m * 2^e\<close>, with
  \<open>s\<close> the sign bit. The doubles are the values with \<open>2^52 \<le> m < 2^53\<close> and
  \<open>-1074 \<le> e \<le> 971\<close> (normal numbers) or with \<open>m < 2^52\<close> and \<open>e = -1074\<close> (subnormal
  numbers and the two zeros), the two infinities and \<open>NaN\<close>. Every operation below
  returns a double in this form and reads its arguments by their value.
\<close>

datatype py_float = Finite bool int int | Infinity bool | NaN

datatype py_num = PyInt int | PyFloat py_float

text \<open>The integer nearest to \<open>n / d\<close> for \<open>d > 0\<close>, the even one of two that are equally near.\<close>

definition round_half_even :: "int \<Rightarrow> int \<Rightarrow> int" where
  "round_half_even n d =
     (let q = n div d; r = n mod d
      in if 2 * r < d then q
         else if d < 2 * r then q + 1
         else if even q then q else q + 1)"

text \<open>
  The double nearest to \<open>(-1)^s * m * 2^e\<close> for \<open>m \<ge> 0\<close> (round to nearest, ties to
  even). \<open>q\<close> is the exponent of the last place that a double of this size keeps: 53
  binary digits, and no place below \<open>2^(-1074)\<close>. A value that rounds beyond the largest
  double becomes an infinity.
\<close>

definition py_float_round :: "bool \<Rightarrow> int \<Rightarrow> int \<Rightarrow> py_float" where
  "py_float_round s m e =
     (if m \<le> 0 then Finite s 0 (- 1074)
      else let q = max (e + bitlen m - 53) (- 1074);
               n = (if q \<le> e then m * 2 ^ nat (e - q)
                    else round_half_even m (2 ^ nat (q - e)))
           in if n = 2 ^ 53
              then (if 971 \<le> q then Infinity s else Finite s (2 ^ 52) (q + 1))
              else if 971 < q then Infinity s else Finite s n q)"

text \<open>
  An \<open>int\<close> operand of a mixed product is converted to a float first; the conversion
  rounds to the nearest double and raises \<open>OverflowError\<close> when the integer is too large
  for a double.
\<close>

definition py_float_of_int :: "int \<Rightarrow> py_error + py_float" where
  "py_float_of_int n =
     (case py_float_round (n < 0) \<bar>n\<bar> 0 of
        Infinity s \<Rightarrow> Inl OverflowError
      | x \<Rightarrow> Inr x)"

text \<open>
  The product of two floats is the exact product, rounded; it never raises, and a product
  too large for a double is an infinity.
\<close>

fun py_float_mul :: "py_float \<Rightarrow> py_float \<Rightarrow> py_float" where
  "py_float_mul NaN y = NaN"
| "py_float_mul x NaN = NaN"
| "py_float_mul (Infinity s) (Infinity t) = Infinity (s \<noteq> t)"
| "py_float_mul (Infinity s) (Finite t n f) = (if n = 0 then NaN else Infinity (s \<noteq> t))"
| "py_float_mul (Finite s m e) (Infinity t) = (if m = 0 then NaN else Infinity (s \<noteq> t))"
| "py_float_mul (Finite s m e) (Finite t n f) = py_float_round (s \<noteq> t) (m * n) (e + f)"

text \<open>Python's \<open>x * y\<close> on numbers: exact on two ints, a float product otherwise.\<close>

fun py_mul :: "py_num \<Rightarrow> py_num \<Rightarrow> py_error + py_num" where
  "py_mul (PyInt a) (PyInt b) = Inr (PyInt (a * b))"
| "py_mul (PyInt a) (PyFloat y) =
     map_sum id (\<lambda>x. PyFloat (py_float_mul x y)) (py_float_of_int a)"
| "py_mul (PyFloat x) (PyInt b) =
     map_sum id (\<lambda>y. PyFloat (py_float_mul x y)) (py_float_of_int b)"
| "py_mul (PyFloat x) (PyFloat y) = Inr (PyFloat (py_float_mul x y))"

text \<open>
  Python compares numbers by their exact values, also an int with a float; a comparison
  with \<open>NaN\<close> is false. \<open>signed s m\<close> is the significand with its sign, and two finite
  values are compared after scaling both to the smaller of their exponents.
\<close>

definition signed :: "bool \<Rightarrow> int \<Rightarrow> int" where
  "signed s m = (if s then - m else m)"

fun py_float_lt :: "py_float \<Rightarrow> py_float \<Rightarrow> bool" where
  "py_float_lt NaN y = False"
| "py_float_lt x NaN = False"
| "py_float_lt (Infinity s) (Infinity t) = (s \<and> \<not> t)"
| "py_float_lt (Infinity s) (Finite t n f) = s"
| "py_float_lt (Finite s m e) (Infinity t) = (\<not> t)"
| "py_float_lt (Finite s m e) (Finite t n f) =
     (signed s m * 2 ^ nat (e - min e f) < signed t n * 2 ^ nat (f - min e f))"

fun py_float_le :: "py_float \<Rightarrow> py_float \<Rightarrow> bool" where
  "py_float_le NaN y = False"
| "py_float_le x NaN = False"
| "py_float_le (Infinity s) (Infinity t) = (if t then s else True)"
| "py_float_le (Infinity s) (Finite t n f) = s"
| "py_float_le (Finite s m e) (Infinity t) = (\<not> t)"
| "py_float_le (Finite s m e) (Finite t n f) =
     (signed s m * 2 ^ nat (e - min e f) \<le> signed t n * 2 ^ nat (f - min e f))"

fun py_exact :: "py_num \<Rightarrow> py_float" where
  "py_exact (PyInt a) = Finite (a < 0) \<bar>a\<bar> 0"
| "py_exact (PyFloat x) = x"

definition py_lt :: "py_num \<Rightarrow> py_num \<Rightarrow> bool" where
  "py_lt x y = py_float_lt (py_exact x) (py_exact y)"

definition py_le :: "py_num \<Rightarrow> py_num \<Rightarrow> bool" where
  "py_le x y = py_float_le (py_exact x) (py_exact y)"

text \<open>
  The exact value of a finite double as a real number, and the float that Python reads
  from the literal \<open>1.2\<close>: the double nearest to \<open>12 / 10\<close>, a little below it.
\<close>

definition finite_value :: "bool \<Rightarrow> int \<Rightarrow> int \<Rightarrow> real" where
  "finite_value s m e =
     of_int (signed s m) * (if 0 \<le> e then 2 ^ nat e else 1 / 2 ^ nat (- e))"

definition float_1_2 :: py_float where
  "float_1_2 = Finite False 5404319552844595 (- 52)"

subsection \<open>The provider and a run\<close>

record 'w provider =
  describe_vpcs :: "'w \<Rightarrow> (py_error + string option list option) \<times> 'w"
  create_security_group :: "string \<Rightarrow> string \<Rightarrow> string \<Rightarrow> 'w \<Rightarrow> (py_error + string) \<times> 'w"
  authorize_security_group_ingress :: "string \<Rightarrow> ip_permission \<Rightarrow> 'w \<Rightarrow> (py_error + unit) \<times> 'w"
  describe_security_groups :: "string list \<Rightarrow> 'w \<Rightarrow> (py_error + string list) \<times> 'w"
  delete_security_group :: "string \<Rightarrow> string \<Rightarrow> 'w \<Rightarrow> (py_error + unit) \<times> 'w"
  create_db_instance :: "db_request \<Rightarrow> 'w \<Rightarrow> (py_error + unit) \<times> 'w"
  describe_db_instances :: "string \<Rightarrow> 'w \<Rightarrow> (py_error + db_instance list) \<times> 'w"
  delete_db_instance :: "string \<Rightarrow> 'w \<Rightarrow> (py_error + unit) \<times> 'w"
  sleep :: "nat \<Rightarrow> 'w \<Rightarrow> 'w"
  setup_database_engine :: "string \<Rightarrow> string \<Rightarrow> string \<Rightarrow> string \<Rightarrow> 'w \<Rightarrow> 'w"
  check_database_health :: "'w \<Rightarrow> string \<times> 'w"
  init_database :: "'w \<Rightarrow> 'w"
  get_account_balance :: "bool \<Rightarrow> 'w \<Rightarrow> (py_error + py_float) \<times> 'w"
  detach_role_policy :: "string \<Rightarrow> string \<Rightarrow> 'w \<Rightarrow> (py_error + unit) \<times> 'w"
  delete_role :: "string \<Rightarrow> 'w \<Rightarrow> (py_error + unit) \<times> 'w"

record 'w run =
  world :: 'w
  events :: "event list"

definition invoke :: "api_call \<Rightarrow> ('w \<Rightarrow> 'r \<times> 'w) \<Rightarrow> 'w run \<Rightarrow> 'r \<times> 'w run" where
  "invoke c f st =
     (case f (world st) of
        (r, w') \<Rightarrow> (r, \<lparr>world = w', events = events st @ [Call c]\<rparr>))"

definition invoke_unit :: "api_call \<Rightarrow> ('w \<Rightarrow> 'w) \<Rightarrow> 'w run \<Rightarrow> 'w run" where
  "invoke_unit c f st = \<lparr>world = f (world st), events = events st @ [Call c]\<rparr>"

definition py_print :: "string \<Rightarrow> 'w run \<Rightarrow> 'w run" where
  "py_print s st = st\<lparr>events := events st @ [Print s]\<rparr>"

definition is_ClientError :: "py_error \<Rightarrow> bool" where
  "is_ClientError e = (case e of ClientError _ \<Rightarrow> True | _ \<Rightarrow> False)"

section \<open>Marketplace cost and balance (lines 298--354)\<close>

text \<open>
  \<open>payment_opt\<close> is the dictionary that \<open>calculate_mturk_cost\<close> documents: its
  \<open>'type'\<close> is \<open>'reward'\<close> (with the numbers \<open>num_hits\<close>, \<open>num_assignments\<close> and
  \<open>reward\<close>, in this order) or \<open>'bonus'\<close> (with the number \<open>amount\<close>); with any other
  \<open>'type'\<close> the function returns the initial \<open>0\<close>. The product of line 319 is evaluated
  from left to right, and an exception of one product ends the call.
\<close>

datatype payment_opt =
    Reward py_num py_num py_num
  | Bonus py_num
  | OtherType string

fun calculate_mturk_cost :: "payment_opt \<Rightarrow> py_error + py_num" where
  "calculate_mturk_cost (Reward num_hits num_assignments reward) =
     (case py_mul num_hits num_assignments of
        Inl e \<Rightarrow> Inl e
      | Inr hits_assignments \<Rightarrow>
          (case py_mul hits_assignments reward of
             Inl e \<Rightarrow> Inl e
           | Inr payment \<Rightarrow>
               (case py_mul payment (PyFloat float_1_2) of
                  Inl e \<Rightarrow> Inl e
                | Inr total_cost \<Rightarrow>
                    if py_le (PyInt 10) num_assignments
                    then py_mul total_cost (PyFloat float_1_2)
                    else Inr total_cost)))"
| "calculate_mturk_cost (Bonus amount) = py_mul amount (PyFloat float_1_2)"
| "calculate_mturk_cost (OtherType t) = Inr (PyInt 0)"

text \<open>
  The formula of the specification, \<open>x * y1 * ... * yn\<close>, in Python's arithmetic: the
  products are taken from left to right, and an exception of one of them is the result.
\<close>

fun py_product :: "py_error + py_num \<Rightarrow> py_num list \<Rightarrow> py_error + py_num" where
  "py_product x [] = x"
| "py_product (Inl e) (y # ys) = Inl e"
| "py_product (Inr x) (y # ys) = py_product (py_mul x y) ys"

text \<open>
  Line 351 concatenates a string and the number \<open>balance_needed\<close> with \<open>+\<close>, which Python
  rejects with \<open>TypeError\<close> whatever the two values are.
\<close>

definition str_plus_float :: "string \<Rightarrow> py_num \<Rightarrow> py_error + string" where
  "str_plus_float s x = Inl TypeError"

definition account_not_linked_message :: string where
  "account_not_linked_message =
     ''ERROR: To use the MTurk API, you will need an Amazon Web Services (AWS) Account. Your AWS account must be linked to your Amazon Mechanical Turk Account. Visit https://requestersandbox.mturk.com/developer to get started. (Note: if you have recently linked your account, please wait for a couple minutes before trying again.)\<newline>''"

text \<open>
  \<open>get_account_balance\<close> of the provider is line 340 as a whole: the request and the
  conversion of \<open>'AvailableBalance'\<close> to a float.
\<close>

definition check_mturk_balance ::
  "'w provider \<Rightarrow> py_num \<Rightarrow> bool \<Rightarrow> 'w run \<Rightarrow> (py_error + bool) \<times> 'w run" where
  "check_mturk_balance P balance_needed is_sandbox st =
     (case invoke (GetAccountBalance is_sandbox) (get_account_balance P is_sandbox) st of
        (Inl e, st1) \<Rightarrow>
          (case e of
             ClientError code \<Rightarrow>
               if code = ''RequestError''
               then (Inl SystemExit, py_print account_not_linked_message st1)
               else (Inl e, st1)
           | _ \<Rightarrow> (Inl e, st1))
      | (Inr user_balance, st1) \<Rightarrow>
          (case py_mul balance_needed (PyFloat float_1_2) of
             Inl e \<Rightarrow> (Inl e, st1)
           | Inr balance_needed \<Rightarrow>
               if py_lt (PyFloat user_balance) balance_needed
               then (case str_plus_float
                       ''You might not have enough money in your MTurk account. Please go to https://requester.mturk.com/account and increase your balance to at least ''
                       balance_needed of
                       Inl e \<Rightarrow> (Inl e, st1)
                     | Inr msg \<Rightarrow> (Inr False, py_print (msg @ '', and then try again.'') st1))
               else (Inr True, st1)))"

section \<open>Module constants (lines 23--49)\<close>

text \<open>
  \<open>user_name\<close> is \<open>getpass.getuser()\<close>, read once when the module is loaded; the names
  derived from it take it as an argument.
\<close>

definition rds_db_instance_identifier :: "string \<Rightarrow> string" where
  "rds_db_instance_identifier user_name = ''parlai-mturk-db-'' @ user_name"

definition rds_db_name :: "string \<Rightarrow> string" where
  "rds_db_name user_name = ''parlai_mturk_db_'' @ user_name"

definition rds_username :: string where
  "rds_username = ''parlai_user''"

definition rds_password :: string where
  "rds_password = ''parlai_user_password''"

definition rds_security_group_name :: string where
  "rds_security_group_name = ''parlai-mturk-db-security-group''"

definition rds_security_group_description :: string where
  "rds_security_group_description = ''Security group for ParlAI MTurk DB''"

definition rds_db_instance_class :: string where
  "rds_db_instance_class = ''db.t2.medium''"

section \<open>The security group of the database (lines 86--115)\<close>

text \<open>
  \<open>response.get('Vpcs', [{}])[0].get('VpcId', '')\<close>: a response without \<open>'Vpcs'\<close>
  gives the empty string, an empty list of networks raises \<open>IndexError\<close>, and a network
  without \<open>'VpcId'\<close> gives the empty string.
\<close>

definition first_vpc_id :: "string option list option \<Rightarrow> py_error + string" where
  "first_vpc_id response =
     (case response of
        None \<Rightarrow> Inr []
      | Some [] \<Rightarrow> Inl IndexError
      | Some (v # _) \<Rightarrow> Inr (case v of None \<Rightarrow> [] | Some i \<Rightarrow> i))"

definition rds_ingress_permission :: ip_permission where
  "rds_ingress_permission =
     \<lparr>IpProtocol = ''tcp'', FromPort = 5432, ToPort = 5432,
      IpRanges = [''0.0.0.0/0''], Ipv6Ranges = [''::/0'']\<rparr>"

text \<open>
  The handler of lines 111--115. It runs with the value \<open>security_group_id\<close> has when the
  exception arrives. It has no \<open>else\<close> branch: a \<open>ClientError\<close> with another code is
  dropped. An exception that is not a \<open>ClientError\<close> is not caught.
\<close>

definition security_group_except ::
  "'w provider \<Rightarrow> string option \<Rightarrow> py_error \<Rightarrow> 'w run \<Rightarrow> (py_error + string option) \<times> 'w run" where
  "security_group_except P security_group_id e st =
     (case e of
        ClientError code \<Rightarrow>
          if code = ''InvalidGroup.Duplicate''
          then (case invoke (DescribeSecurityGroups [rds_security_group_name])
                       (describe_security_groups P [rds_security_group_name])
                       (py_print ''RDS: Security group already exists.'' st) of
                  (Inl e', st1) \<Rightarrow> (Inl e', st1)
                | (Inr [], st1) \<Rightarrow> (Inl IndexError, st1)
                | (Inr (g # _), st1) \<Rightarrow> (Inr (Some g), st1))
          else (Inr security_group_id, st)
      | _ \<Rightarrow> (Inl e, st))"

definition ensure_security_group ::
  "'w provider \<Rightarrow> string \<Rightarrow> 'w run \<Rightarrow> (py_error + string option) \<times> 'w run" where
  "ensure_security_group P vpc_id st =
     (case invoke
             (CreateSecurityGroup rds_security_group_name rds_security_group_description vpc_id)
             (create_security_group P rds_security_group_name rds_security_group_description vpc_id)
             st of
        (Inl e, st1) \<Rightarrow> security_group_except P None e st1
      | (Inr group_id, st1) \<Rightarrow>
          (case invoke (AuthorizeSecurityGroupIngress group_id rds_ingress_permission)
                  (authorize_security_group_ingress P group_id rds_ingress_permission)
                  (py_print ''RDS: Security group created.'' st1) of
             (Inl e, st2) \<Rightarrow> security_group_except P (Some group_id) e st2
           | (Inr _, st2) \<Rightarrow>
               (Inr (Some group_id),
                py_print ''RDS: Security group ingress IP permissions set.'' st2)))"

definition setup_rds_security_group ::
  "'w provider \<Rightarrow> 'w run \<Rightarrow> (py_error + string option) \<times> 'w run" where
  "setup_rds_security_group P st =
     (case invoke DescribeVpcs (describe_vpcs P) st of
        (Inl e, st1) \<Rightarrow> (Inl e, st1)
      | (Inr response, st1) \<Rightarrow>
          (case first_vpc_id response of
             Inl e \<Rightarrow> (Inl e, st1)
           | Inr vpc_id \<Rightarrow> ensure_security_group P vpc_id st1))"

section \<open>Polling and decommissioning the database instance (lines 195--230)\<close>

text \<open>
  The loop \<open>while status == s: time.sleep(5); describe; db_instance = db_instances[0];
  status = db_instance['DBInstanceStatus']\<close> of lines 157--162, 169--174 and 220--225. It
  may run forever: the result \<open>None\<close> is a run that does not return.
\<close>

partial_function (option) poll_while_status ::
  "'w provider \<Rightarrow> string \<Rightarrow> string \<Rightarrow> db_instance \<Rightarrow> 'w run
     \<Rightarrow> ((py_error + db_instance) \<times> 'w run) option" where
  "poll_while_status P ident s db_inst st =
     (if DBInstanceStatus db_inst = s
      then (case invoke (DescribeDBInstances ident) (describe_db_instances P ident)
                   (invoke_unit (Sleep 5) (sleep P 5) st) of
              (Inl e, st1) \<Rightarrow> Some (Inl e, st1)
            | (Inr db_instances, st1) \<Rightarrow>
                (case db_instances of
                   [] \<Rightarrow> Some (Inl IndexError, st1)
                 | d # _ \<Rightarrow> poll_while_status P ident s d st1))
      else Some (Inr db_inst, st))"

declare poll_while_status.simps [code]

text \<open>The handler of lines 229--230: every \<open>ClientError\<close> means the instance is absent.\<close>

definition remove_rds_except :: "py_error \<Rightarrow> 'w run \<Rightarrow> (py_error + unit) \<times> 'w run" where
  "remove_rds_except e st =
     (if is_ClientError e
      then (Inr (), py_print ''RDS: Database doesn't exist.'' st)
      else (Inl e, st))"

text \<open>Lines 219--227: wait while the instance is deleting; a \<open>ClientError\<close> ends the wait.\<close>

definition remove_rds_wait ::
  "'w provider \<Rightarrow> string \<Rightarrow> db_instance \<Rightarrow> 'w run \<Rightarrow> ((py_error + unit) \<times> 'w run) option" where
  "remove_rds_wait P ident db_inst st =
     (case poll_while_status P ident ''deleting'' db_inst st of
        None \<Rightarrow> None
      | Some (Inl e, st1) \<Rightarrow>
          Some (if is_ClientError e
                then (Inr (), py_print ''RDS: Database deleted.'' st1)
                else (Inl e, st1))
      | Some (Inr _, st1) \<Rightarrow> Some (Inr (), st1))"

definition remove_rds_database ::
  "'w provider \<Rightarrow> string \<Rightarrow> 'w run \<Rightarrow> ((py_error + unit) \<times> 'w run) option" where
  "remove_rds_database P user_name st =
     (let ident = rds_db_instance_identifier user_name in
      case invoke (DescribeDBInstances ident) (describe_db_instances P ident) st of
        (Inl e, st1) \<Rightarrow> Some (remove_rds_except e st1)
      | (Inr [], st1) \<Rightarrow> Some (Inl IndexError, st1)
      | (Inr (d # _), st1) \<Rightarrow>
          if DBInstanceStatus d = ''deleting''
          then remove_rds_wait P ident d
                 (py_print ''RDS: Waiting for previous delete operation to complete. This might take a couple minutes...'' st1)
          else (case invoke (DeleteDBInstance ident) (delete_db_instance P ident) st1 of
                  (Inl e, st2) \<Rightarrow> Some (remove_rds_except e st2)
                | (Inr _, st2) \<Rightarrow>
                    (case invoke (DescribeDBInstances ident) (describe_db_instances P ident) st2 of
                       (Inl e, st3) \<Rightarrow> Some (remove_rds_except e st3)
                     | (Inr [], st3) \<Rightarrow> Some (Inl IndexError, st3)
                     | (Inr (d' # _), st3) \<Rightarrow>
                         remove_rds_wait P ident d'
                           (if DBInstanceStatus d' = ''deleting''
                            then py_print ''RDS: Deleting database. This might take a couple minutes...'' st3
                            else st3))))"

section \<open>Provisioning the database instance (lines 117--193)\<close>

text \<open>
  One pass through the body of \<open>while not rds_instance_is_ready\<close> up to line 177 ends in
  one of three ways: an exception leaves \<open>setup_rds\<close> (\<open>Raised\<close>), a \<open>continue\<close> restarts
  the loop (\<open>Continue\<close>), or the endpoint host of the instance has been read
  (\<open>Reached\<close>) and the schema check of lines 179--191 follows.
\<close>

datatype 'w attempt =
    Raised py_error "'w run"
  | Continue "'w run"
  | Reached string "'w run"

text \<open>
  The request of lines 121--134; the constant arguments \<open>StorageEncrypted\<close>,
  \<open>AutoMinorVersionUpgrade\<close>, \<open>MultiAZ\<close> and \<open>Tags\<close> are left out of the record.
\<close>

definition rds_create_request :: "string \<Rightarrow> string option \<Rightarrow> db_request" where
  "rds_create_request user_name security_group_id =
     \<lparr>DBInstanceIdentifier = rds_db_instance_identifier user_name,
      AllocatedStorage = 20,
      DBName = rds_db_name user_name,
      Engine = ''postgres'',
      StorageType = ''gp2'',
      MasterUsername = rds_username,
      MasterUserPassword = rds_password,
      VpcSecurityGroupIds = [security_group_id],
      RequestedClass = rds_db_instance_class\<rparr>"

text \<open>Lines 176--177: \<open>db_instance['Endpoint']['Address']\<close>.\<close>

definition rds_endpoint_stage :: "db_instance \<Rightarrow> 'w run \<Rightarrow> 'w attempt" where
  "rds_endpoint_stage db_inst st =
     (case Endpoint db_inst of
        None \<Rightarrow> Raised KeyError st
      | Some host \<Rightarrow> Reached host st)"

text \<open>Lines 167--174: wait while the instance is being created; errors are not caught.\<close>

definition rds_creating_stage ::
  "'w provider \<Rightarrow> string \<Rightarrow> db_instance \<Rightarrow> 'w run \<Rightarrow> 'w attempt option" where
  "rds_creating_stage P ident db_inst st =
     (if DBInstanceStatus db_inst = ''creating''
      then (case poll_while_status P ident ''creating'' db_inst
                   (py_print ''RDS: Waiting for newly created database to be available. This might take a couple minutes...'' st) of
              None \<Rightarrow> None
            | Some (Inl e, st1) \<Rightarrow> Some (Raised e st1)
            | Some (Inr d, st1) \<Rightarrow> Some (rds_endpoint_stage d st1))
      else Some (rds_endpoint_stage db_inst st))"

text \<open>
  Lines 154--165: wait while a previous delete completes; a \<open>ClientError\<close> while polling
  restarts the outer loop.
\<close>

definition rds_deleting_stage ::
  "'w provider \<Rightarrow> string \<Rightarrow> db_instance \<Rightarrow> 'w run \<Rightarrow> 'w attempt option" where
  "rds_deleting_stage P ident db_inst st =
     (if DBInstanceStatus db_inst = ''deleting''
      then (case poll_while_status P ident ''deleting'' db_inst
                   (py_print ''RDS: Waiting for previous delete operation to complete. This might take a couple minutes...'' st) of
              None \<Rightarrow> None
            | Some (Inl e, st1) \<Rightarrow>
                if is_ClientError e then Some (Continue st1) else Some (Raised e st1)
            | Some (Inr d, st1) \<Rightarrow> rds_creating_stage P ident d st1)
      else rds_creating_stage P ident db_inst st)"

text \<open>Lines 142--150: read the instance; a wrong instance class removes it and restarts.\<close>

definition rds_describe_stage ::
  "'w provider \<Rightarrow> string \<Rightarrow> 'w run \<Rightarrow> 'w attempt option" where
  "rds_describe_stage P user_name st =
     (let ident = rds_db_instance_identifier user_name in
      case invoke (DescribeDBInstances ident) (describe_db_instances P ident) st of
        (Inl e, st1) \<Rightarrow> Some (Raised e st1)
      | (Inr [], st1) \<Rightarrow> Some (Raised IndexError st1)
      | (Inr (d # _), st1) \<Rightarrow>
          if DBInstanceClass d \<noteq> rds_db_instance_class
          then (case remove_rds_database P user_name
                       (py_print ''RDS: Instance class does not match.'' st1) of
                  None \<Rightarrow> None
                | Some (Inl e, st2) \<Rightarrow> Some (Raised e st2)
                | Some (Inr _, st2) \<Rightarrow> Some (Continue st2))
          else rds_deleting_stage P ident d st1)"

text \<open>Lines 119--141: request the instance; only \<open>DBInstanceAlreadyExists\<close> is tolerated.\<close>

definition rds_attempt ::
  "'w provider \<Rightarrow> string \<Rightarrow> string option \<Rightarrow> 'w run \<Rightarrow> 'w attempt option" where
  "rds_attempt P user_name security_group_id st =
     (let req = rds_create_request user_name security_group_id in
      case invoke (CreateDBInstance req) (create_db_instance P req) st of
        (Inl e, st1) \<Rightarrow>
          (case e of
             ClientError code \<Rightarrow>
               if code = ''DBInstanceAlreadyExists''
               then rds_describe_stage P user_name
                      (py_print ''RDS: DB instance already exists.'' st1)
               else Some (Raised e st1)
           | _ \<Rightarrow> Some (Raised e st1))
      | (Inr _, st1) \<Rightarrow>
          rds_describe_stage P user_name (py_print ''RDS: Starting RDS instance...'' st1))"

text \<open>
  Lines 179--180: connect to the instance and inspect its schema. Both functions come
  from the module \<open>data_model\<close>; they are operations of the provider record.
\<close>

definition rds_health_check :: "'w provider \<Rightarrow> string \<Rightarrow> string \<Rightarrow> 'w run \<Rightarrow> string \<times> 'w run" where
  "rds_health_check P user_name host st =
     invoke CheckDatabaseHealth (check_database_health P)
       (invoke_unit (SetupDatabaseEngine host (rds_db_name user_name) rds_username rds_password)
          (setup_database_engine P host (rds_db_name user_name) rds_username rds_password) st)"

text \<open>
  The whole loop. \<open>rds_instance_is_ready\<close> is true only after line 191, so the loop
  leaves exactly there; \<open>None\<close> is a run that never leaves it.
\<close>

partial_function (option) setup_rds_loop ::
  "'w provider \<Rightarrow> string \<Rightarrow> string option \<Rightarrow> 'w run \<Rightarrow> ((py_error + string) \<times> 'w run) option" where
  "setup_rds_loop P user_name security_group_id st =
     (case rds_attempt P user_name security_group_id st of
        None \<Rightarrow> None
      | Some (Raised e st1) \<Rightarrow> Some (Inl e, st1)
      | Some (Continue st1) \<Rightarrow> setup_rds_loop P user_name security_group_id st1
      | Some (Reached host st1) \<Rightarrow>
          (case rds_health_check P user_name host st1 of
             (database_health_status, st2) \<Rightarrow>
               if database_health_status \<in> set [''missing_table'', ''healthy'']
               then Some (Inr host,
                      py_print ''RDS: DB instance ready.''
                        (invoke_unit InitDatabase (init_database P)
                           (py_print (''Remote database health status: '' @ database_health_status) st2)))
               else if database_health_status \<in> set [''inconsistent_schema'', ''unknown_error'']
               then (case remove_rds_database P user_name
                            (py_print (''Remote database error: '' @ database_health_status @ ''. Removing RDS database...'') st2) of
                       None \<Rightarrow> None
                     | Some (Inl e, st3) \<Rightarrow> Some (Inl e, st3)
                     | Some (Inr _, st3) \<Rightarrow> setup_rds_loop P user_name security_group_id st3)
               else Some (Inr host, py_print ''RDS: DB instance ready.'' st2)))"

declare setup_rds_loop.simps [code]

definition setup_rds ::
  "'w provider \<Rightarrow> string \<Rightarrow> 'w run \<Rightarrow> ((py_error + string) \<times> 'w run) option" where
  "setup_rds P user_name st =
     (case setup_rds_security_group P st of
        (Inl e, st1) \<Rightarrow> Some (Inl e, st1)
      | (Inr security_group_id, st1) \<Rightarrow> setup_rds_loop P user_name security_group_id st1)"

section \<open>Teardown (lines 485--556)\<close>

text \<open>
  The strings bound at module level by lines 23--47, as a dictionary from names to values.
  \<open>user_name\<close> and \<open>parent_dir\<close> are read from the process when the module is loaded.
  The other module-level names are the imported modules, the imported functions
  \<open>setup_database_engine\<close>, \<open>init_database\<close>, \<open>check_database_health\<close>,
  \<open>ClientError\<close>, \<open>ProfileNotFound\<close>, \<open>call\<close>, the list \<open>generic_files_to_copy\<close>, the
  number \<open>mturk_hit_frame_height\<close> and the functions the module defines.
\<close>

definition module_globals :: "string \<Rightarrow> string \<Rightarrow> (string \<rightharpoonup> string)" where
  "module_globals user_name parent_dir =
     map_of
       [(''aws_profile_name'', ''parlai_mturk''),
        (''region_name'', ''us-east-1''),
        (''user_name'', user_name),
        (''api_gateway_name'', ''ParlaiRelayServer_'' @ user_name),
        (''endpoint_api_name_html'', ''html''),
        (''endpoint_api_name_json'', ''json''),
        (''rds_db_instance_identifier'', rds_db_instance_identifier user_name),
        (''rds_db_name'', rds_db_name user_name),
        (''rds_username'', rds_username),
        (''rds_password'', rds_password),
        (''rds_security_group_name'', rds_security_group_name),
        (''rds_security_group_description'', rds_security_group_description),
        (''rds_db_instance_class'', rds_db_instance_class),
        (''parent_dir'', parent_dir),
        (''ec2_server_zip_file_name'', ''ec2_server.zip'')]"

text \<open>Reading a global name: Python raises \<open>NameError\<close> when the name is not bound.\<close>

definition load_global :: "(string \<rightharpoonup> string) \<Rightarrow> string \<Rightarrow> py_error + string" where
  "load_global globals name =
     (case globals name of
        None \<Rightarrow> Inl (NameError name)
      | Some v \<Rightarrow> Inr v)"

text \<open>Lines 487--512: delete the instance and wait until it is gone.\<close>

definition clean_aws_rds ::
  "'w provider \<Rightarrow> string \<Rightarrow> 'w run \<Rightarrow> ((py_error + unit) \<times> 'w run) option" where
  "clean_aws_rds P user_name st =
     (let ident = rds_db_instance_identifier user_name in
      case invoke (DeleteDBInstance ident) (delete_db_instance P ident) st of
        (Inl e, st1) \<Rightarrow> Some (remove_rds_except e st1)
      | (Inr _, st1) \<Rightarrow>
          (case invoke (DescribeDBInstances ident) (describe_db_instances P ident) st1 of
             (Inl e, st2) \<Rightarrow> Some (remove_rds_except e st2)
           | (Inr [], st2) \<Rightarrow> Some (Inl IndexError, st2)
           | (Inr (d # _), st2) \<Rightarrow>
               remove_rds_wait P ident d
                 (if DBInstanceStatus d = ''deleting''
                  then py_print ''RDS: Deleting database. This might take a couple minutes...'' st2
                  else st2)))"

definition clean_aws_except :: "string \<Rightarrow> py_error \<Rightarrow> 'w run \<Rightarrow> (py_error + unit) \<times> 'w run" where
  "clean_aws_except message e st =
     (if is_ClientError e then (Inr (), py_print message st) else (Inl e, st))"

text \<open>Lines 515--528: look the security group up and delete it.\<close>

definition clean_aws_security_group :: "'w provider \<Rightarrow> 'w run \<Rightarrow> (py_error + unit) \<times> 'w run" where
  "clean_aws_security_group P st =
     (case invoke (DescribeSecurityGroups [rds_security_group_name])
             (describe_security_groups P [rds_security_group_name]) st of
        (Inl e, st1) \<Rightarrow> clean_aws_except ''RDS: Security group doesn't exist.'' e st1
      | (Inr [], st1) \<Rightarrow> (Inl IndexError, st1)
      | (Inr (security_group_id # _), st1) \<Rightarrow>
          (case invoke (DeleteSecurityGroup rds_security_group_name security_group_id)
                  (delete_security_group P rds_security_group_name security_group_id) st1 of
             (Inl e, st2) \<Rightarrow> clean_aws_except ''RDS: Security group doesn't exist.'' e st2
           | (Inr _, st2) \<Rightarrow> (Inr (), py_print ''RDS: Security group removed.'' st2)))"

text \<open>
  Lines 534--540 and 542--548: detach one policy; the inner handler drops a
  \<open>ClientError\<close>. The role name is the global \<open>iam_role_name\<close>, read when the call is made.
\<close>

definition detach_policy_ignoring ::
  "'w provider \<Rightarrow> (string \<rightharpoonup> string) \<Rightarrow> string \<Rightarrow> 'w run \<Rightarrow> (py_error + unit) \<times> 'w run" where
  "detach_policy_ignoring P globals policy_arn st =
     (case load_global globals ''iam_role_name'' of
        Inl e \<Rightarrow> (Inl e, st)
      | Inr role_name \<Rightarrow>
          (case invoke (DetachRolePolicy role_name policy_arn)
                  (detach_role_policy P role_name policy_arn) st of
             (Inl e, st1) \<Rightarrow> if is_ClientError e then (Inr (), st1) else (Inl e, st1)
           | (Inr _, st1) \<Rightarrow> (Inr (), st1)))"

text \<open>Lines 531--556: the role-removal step.\<close>

definition clean_aws_iam_role ::
  "'w provider \<Rightarrow> (string \<rightharpoonup> string) \<Rightarrow> 'w run \<Rightarrow> (py_error + unit) \<times> 'w run" where
  "clean_aws_iam_role P globals st =
     (case detach_policy_ignoring P globals ''arn:aws:iam::aws:policy/AmazonRDSFullAccess'' st of
        (Inl e, st1) \<Rightarrow> clean_aws_except ''IAM: Role doesn't exist.'' e st1
      | (Inr _, st1) \<Rightarrow>
          (case detach_policy_ignoring P globals
                  ''arn:aws:iam::aws:policy/AmazonMechanicalTurkFullAccess'' st1 of
             (Inl e, st2) \<Rightarrow> clean_aws_except ''IAM: Role doesn't exist.'' e st2
           | (Inr _, st2) \<Rightarrow>
               (case load_global globals ''iam_role_name'' of
                  Inl e \<Rightarrow> clean_aws_except ''IAM: Role doesn't exist.'' e st2
                | Inr role_name \<Rightarrow>
                    (case invoke (DeleteRole role_name) (delete_role P role_name) st2 of
                       (Inl e, st3) \<Rightarrow> clean_aws_except ''IAM: Role doesn't exist.'' e st3
                     | (Inr _, st3) \<Rightarrow>
                         (Inr (),
                          py_print ''IAM: Role removed.''
                            (invoke_unit (Sleep 10) (sleep P 10) st3))))))"

definition clean_aws ::
  "'w provider \<Rightarrow> (string \<rightharpoonup> string) \<Rightarrow> string \<Rightarrow> 'w run
     \<Rightarrow> ((py_error + unit) \<times> 'w run) option" where
  "clean_aws P globals user_name st =
     (case clean_aws_rds P user_name st of
        None \<Rightarrow> None
      | Some (Inl e, st1) \<Rightarrow> Some (Inl e, st1)
      | Some (Inr _, st1) \<Rightarrow>
          (case clean_aws_security_group P st1 of
             (Inl e, st2) \<Rightarrow> Some (Inl e, st2)
           | (Inr _, st2) \<Rightarrow> Some (clean_aws_iam_role P globals st2)))"

section \<open>The listing configuration file (lines 233--248)\<close>

datatype json = JStr string | JInt int | JBool bool

text \<open>\<open>os.path.join\<close> of a directory and a relative name.\<close>

definition os_path_join :: "string \<Rightarrow> string \<Rightarrow> string" where
  "os_path_join a b =
     (if a = [] then b else if last a = CHR ''/'' then a @ b else a @ ''/'' @ b)"

text \<open>Lines 234--236.\<close>

definition mturk_submit_url :: "bool \<Rightarrow> string" where
  "mturk_submit_url is_sandbox =
     (if \<not> is_sandbox then ''https://www.mturk.com/mturk/externalSubmit''
      else ''https://workersandbox.mturk.com/mturk/externalSubmit'')"

text \<open>Lines 237--243: the dictionary, as an association list in insertion order.\<close>

definition hit_config :: "string \<Rightarrow> int \<Rightarrow> int \<Rightarrow> bool \<Rightarrow> (string \<times> json) list" where
  "hit_config task_description num_hits num_assignments is_sandbox =
     [(''task_description'', JStr task_description),
      (''num_hits'', JInt num_hits),
      (''num_assignments'', JInt num_assignments),
      (''is_sandbox'', JBool is_sandbox),
      (''mturk_submit_url'', JStr (mturk_submit_url is_sandbox))]"

text \<open>
  Lines 244--248. The file system is a map from paths to file contents; \<open>json.dumps\<close>
  is the parameter \<open>dumps\<close>. An existing file is removed, then the file is opened for
  writing and the rendered dictionary is written.
\<close>

definition create_hit_config ::
  "((string \<times> json) list \<Rightarrow> string) \<Rightarrow> string \<Rightarrow> string \<Rightarrow> int \<Rightarrow> int \<Rightarrow> bool
     \<Rightarrow> (string \<rightharpoonup> string) \<Rightarrow> (string \<rightharpoonup> string)" where
  "create_hit_config dumps parent_dir task_description num_hits num_assignments is_sandbox fs =
     (let hit_config_file_path = os_path_join parent_dir ''hit_config.json'';
          fs1 = (case fs hit_config_file_path of
                   None \<Rightarrow> fs
                 | Some _ \<Rightarrow> fs(hit_config_file_path := None))
      in fs1(hit_config_file_path \<mapsto>
               dumps (hit_config task_description num_hits num_assignments is_sandbox)))"

section \<open>Routing uploaded files (lines 269--279)\<close>

text \<open>Python's \<open>str.split(sep)\<close> for a one-character separator: never the empty list.\<close>

fun py_split :: "char \<Rightarrow> string \<Rightarrow> string list" where
  "py_split c [] = [[]]"
| "py_split c (x # xs) =
     (if x = c then [] # py_split c xs
      else (case py_split c xs of
              [] \<Rightarrow> [[x]]
            | p # ps \<Rightarrow> (x # p) # ps))"

definition dest_path :: string where
  "dest_path = ''/var/www/demoapp/''"

text \<open>
  Lines 274--278. \<open>'html' in file_src\<close> is Python's substring test on the whole path;
  \<open>file_src.split('/')[-1]\<close> is the last piece of the path.
\<close>

definition file_dest :: "string \<Rightarrow> string" where
  "file_dest file_src =
     (if sublist ''html'' file_src
      then dest_path @ ''html/'' @ last (py_split CHR ''/'' file_src)
      else dest_path @ last (py_split CHR ''/'' file_src))"

definition generic_files_to_copy :: "string \<Rightarrow> string list" where
  "generic_files_to_copy parent_dir =
     [os_path_join parent_dir ''hit_config.json'',
      os_path_join parent_dir ''data_model.py'',
      os_path_join (os_path_join parent_dir ''html'') ''core.html'',
      os_path_join (os_path_join parent_dir ''html'') ''cover_page.html'',
      os_path_join (os_path_join parent_dir ''html'') ''mturk_index.html'']"

text \<open>The pairs (source, destination) that the loop of lines 273--279 hands to \<open>sftp.put\<close>.\<close>

definition files_to_upload :: "string \<Rightarrow> string list \<Rightarrow> (string \<times> string) list" where
  "files_to_upload parent_dir task_files_to_copy =
     map (\<lambda>file_src. (file_src, file_dest file_src))
       (task_files_to_copy @ generic_files_to_copy parent_dir @ [''rds_vals.txt''])"

text \<open>
  The reading of the specification's words ``the source path contains an "html" path
  segment'': one of the pieces between the separators is \<open>html\<close>.
\<close>

definition has_html_segment :: "string \<Rightarrow> bool" where
  "has_html_segment file_src = (''html'' \<in> set (py_split CHR ''/'' file_src))"

section \<open>A reference provider for concrete runs\<close>

text \<open>
  The statements below hold for every provider. To run the model on concrete inputs a
  small provider is fixed here: it keeps the security groups by name, the ingress rules
  in the order they were authorised, at most one database instance, the outcomes the
  schema check will report (in order; \<open>healthy\<close> once they are used up), the response of
  the balance query, and the roles that exist. A pause moves an instance from \<open>creating\<close>
  to \<open>available\<close> and removes one that is \<open>deleting\<close>.
\<close>

record cloud =
  groups :: "(string \<times> string) list"
  rules :: "(string \<times> ip_permission) list"
  db :: "db_instance option"
  health_reports :: "string list"
  balance_response :: "py_error + py_float"
  roles :: "string list"

definition cloud_create_security_group ::
  "string \<Rightarrow> string \<Rightarrow> string \<Rightarrow> cloud \<Rightarrow> (py_error + string) \<times> cloud" where
  "cloud_create_security_group name description vpc_id c =
     (if name \<in> set (map fst (groups c))
      then (Inl (ClientError ''InvalidGroup.Duplicate''), c)
      else (Inr (''sg-'' @ name), c\<lparr>groups := groups c @ [(name, ''sg-'' @ name)]\<rparr>))"

definition cloud_describe_security_groups ::
  "string list \<Rightarrow> cloud \<Rightarrow> (py_error + string list) \<times> cloud" where
  "cloud_describe_security_groups names c =
     (case map snd (filter (\<lambda>g. fst g \<in> set names) (groups c)) of
        [] \<Rightarrow> (Inl (ClientError ''InvalidGroup.NotFound''), c)
      | ids \<Rightarrow> (Inr ids, c))"

definition cloud_delete_security_group ::
  "string \<Rightarrow> string \<Rightarrow> cloud \<Rightarrow> (py_error + unit) \<times> cloud" where
  "cloud_delete_security_group name group_id c =
     (if (name, group_id) \<in> set (groups c)
      then (Inr (), c\<lparr>groups := filter (\<lambda>g. g \<noteq> (name, group_id)) (groups c)\<rparr>)
      else (Inl (ClientError ''InvalidGroup.NotFound''), c))"

definition cloud_create_db_instance :: "db_request \<Rightarrow> cloud \<Rightarrow> (py_error + unit) \<times> cloud" where
  "cloud_create_db_instance req c =
     (case db c of
        Some _ \<Rightarrow> (Inl (ClientError ''DBInstanceAlreadyExists''), c)
      | None \<Rightarrow>
          (Inr (),
           c\<lparr>db := Some \<lparr>DBInstanceClass = RequestedClass req,
                           DBInstanceStatus = ''creating'',
                           Endpoint = None\<rparr>\<rparr>))"

definition cloud_describe_db_instances ::
  "string \<Rightarrow> cloud \<Rightarrow> (py_error + db_instance list) \<times> cloud" where
  "cloud_describe_db_instances ident c =
     (case db c of
        None \<Rightarrow> (Inl (ClientError ''DBInstanceNotFound''), c)
      | Some d \<Rightarrow> (Inr [d], c))"

definition cloud_delete_db_instance :: "string \<Rightarrow> cloud \<Rightarrow> (py_error + unit) \<times> cloud" where
  "cloud_delete_db_instance ident c =
     (case db c of
        None \<Rightarrow> (Inl (ClientError ''DBInstanceNotFound''), c)
      | Some d \<Rightarrow> (Inr (), c\<lparr>db := Some (d\<lparr>DBInstanceStatus := ''deleting''\<rparr>)\<rparr>))"

definition cloud_sleep :: "nat \<Rightarrow> cloud \<Rightarrow> cloud" where
  "cloud_sleep n c =
     (case db c of
        None \<Rightarrow> c
      | Some d \<Rightarrow>
          if DBInstanceStatus d = ''creating''
          then c\<lparr>db := Some (d\<lparr>DBInstanceStatus := ''available'',
                                  Endpoint := Some ''db.example.org''\<rparr>)\<rparr>
          else if DBInstanceStatus d = ''deleting'' then c\<lparr>db := None\<rparr>
          else c)"

definition cloud_check_database_health :: "cloud \<Rightarrow> string \<times> cloud" where
  "cloud_check_database_health c =
     (case health_reports c of
        [] \<Rightarrow> (''healthy'', c)
      | h # hs \<Rightarrow> (h, c\<lparr>health_reports := hs\<rparr>))"

definition cloud_role_call :: "string \<Rightarrow> cloud \<Rightarrow> (py_error + unit) \<times> cloud" where
  "cloud_role_call role_name c =
     (if role_name \<in> set (roles c) then (Inr (), c)
      else (Inl (ClientError ''NoSuchEntity''), c))"

definition cloud_provider :: "cloud provider" where
  "cloud_provider =
     \<lparr>describe_vpcs = (\<lambda>c. (Inr (Some [Some ''vpc-1'']), c)),
      create_security_group = cloud_create_security_group,
      authorize_security_group_ingress =
        (\<lambda>group_id perm c. (Inr (), c\<lparr>rules := rules c @ [(group_id, perm)]\<rparr>)),
      describe_security_groups = cloud_describe_security_groups,
      delete_security_group = cloud_delete_security_group,
      create_db_instance = cloud_create_db_instance,
      describe_db_instances = cloud_describe_db_instances,
      delete_db_instance = cloud_delete_db_instance,
      sleep = cloud_sleep,
      setup_database_engine = (\<lambda>host name user password c. c),
      check_database_health = cloud_check_database_health,
      init_database = (\<lambda>c. c),
      get_account_balance = (\<lambda>sandbox c. (balance_response c, c)),
      detach_role_policy = (\<lambda>role_name policy_arn c. cloud_role_call role_name c),
      delete_role =
        (\<lambda>role_name c.
           case cloud_role_call role_name c of
             (Inl e, c') \<Rightarrow> (Inl e, c')
           | (Inr u, c') \<Rightarrow> (Inr u, c'\<lparr>roles := filter (\<lambda>r. r \<noteq> role_name) (roles c')\<rparr>))\<rparr>"

definition empty_cloud :: cloud where
  "empty_cloud =
     \<lparr>groups = [], rules = [], db = None, health_reports = [],
      balance_response = Inr (py_float_round False 10000 0), roles = []\<rparr>"

definition start :: "'w \<Rightarrow> 'w run" where
  "start w = \<lparr>world = w, events = []\<rparr>"

text \<open>
  Two more providers, for runs in which the provider does not cooperate. The first is
  the reference provider with a delete request that is always refused. The second
  answers \<open>describe_db_instances\<close> and the schema check from a script (the replies still
  to be given, in order) and accepts every other request without doing anything; when
  the script of replies is used up, a describe fails with an error that is not a
  \<open>ClientError\<close> and the schema check reports \<open>healthy\<close>.
\<close>

definition refuse_delete_db_instance :: "string \<Rightarrow> cloud \<Rightarrow> (py_error + unit) \<times> cloud" where
  "refuse_delete_db_instance ident c = (Inl (ClientError ''InvalidDBInstanceState''), c)"

definition refusing_provider :: "cloud provider" where
  "refusing_provider = cloud_provider\<lparr>delete_db_instance := refuse_delete_db_instance\<rparr>"

record script =
  describe_replies :: "(py_error + db_instance list) list"
  health_replies :: "string list"

definition script_describe_db_instances ::
  "string \<Rightarrow> script \<Rightarrow> (py_error + db_instance list) \<times> script" where
  "script_describe_db_instances ident c =
     (case describe_replies c of
        [] \<Rightarrow> (Inl (OtherError ''no reply left''), c)
      | r # rs \<Rightarrow> (r, c\<lparr>describe_replies := rs\<rparr>))"

definition script_check_database_health :: "script \<Rightarrow> string \<times> script" where
  "script_check_database_health c =
     (case health_replies c of
        [] \<Rightarrow> (''healthy'', c)
      | h # hs \<Rightarrow> (h, c\<lparr>health_replies := hs\<rparr>))"

definition script_accept :: "script \<Rightarrow> (py_error + unit) \<times> script" where
  "script_accept c = (Inr (), c)"

definition script_provider :: "script provider" where
  "script_provider =
     \<lparr>describe_vpcs = (\<lambda>c. (Inr (Some [Some ''vpc-1'']), c)),
      create_security_group = (\<lambda>name description vpc_id c. (Inr ''sg-1'', c)),
      authorize_security_group_ingress = (\<lambda>group_id perm. script_accept),
      describe_security_groups = (\<lambda>names c. (Inr [''sg-1''], c)),
      delete_security_group = (\<lambda>name group_id. script_accept),
      create_db_instance = (\<lambda>req. script_accept),
      describe_db_instances = script_describe_db_instances,
      delete_db_instance = (\<lambda>ident. script_accept),
      sleep = (\<lambda>n c. c),
      setup_database_engine = (\<lambda>host name user password c. c),
      check_database_health = script_check_database_health,
      init_database = (\<lambda>c. c),
      get_account_balance = (\<lambda>sandbox c. (Inr (py_float_round False 10000 0), c)),
      detach_role_policy = (\<lambda>role_name policy_arn. script_accept),
      delete_role = (\<lambda>role_name. script_accept)\<rparr>"

text \<open>
  The instance of the reference provider once it is available, and the same instance
  with another instance class.
\<close>

definition available_instance :: db_instance where
  "available_instance =
     \<lparr>DBInstanceClass = ''db.t2.medium'', DBInstanceStatus = ''available'',
      Endpoint = Some ''db.example.org''\<rparr>"

definition deleting_instance :: db_instance where
  "deleting_instance = available_instance\<lparr>DBInstanceStatus := ''deleting''\<rparr>"

definition other_class_instance :: db_instance where
  "other_class_instance = available_instance\<lparr>DBInstanceClass := ''db.t2.micro''\<rparr>"

text \<open>
  The script of a run in which the instance that replaces a decommissioned one turns out
  to have another instance class, once.
\<close>

definition class_mismatch_script :: script where
  "class_mismatch_script =
     \<lparr>describe_replies =
        [Inr [available_instance],
         Inr [available_instance],
         Inr [deleting_instance],
         Inl (ClientError ''DBInstanceNotFound''),
         Inr [other_class_instance],
         Inr [other_class_instance],
         Inl (ClientError ''DBInstanceNotFound''),
         Inr [available_instance]],
      health_replies = [''inconsistent_schema'', ''healthy'']\<rparr>"

section \<open>Observing a run\<close>

text \<open>
  The statements about which requests a run issues read them off the list of events.
  \<open>attempt_run\<close> is the run in which one pass through the loop body ends;
  \<open>is_authorize\<close> picks the ingress authorisations; \<open>poll_calls\<close> are the two requests
  of the polling loop; \<open>decommission_events\<close> are the events \<open>remove_rds_database\<close> can
  issue for the instance \<open>ident\<close>: describe, delete, pause, and printed lines.
\<close>

fun attempt_run :: "'w attempt \<Rightarrow> 'w run" where
  "attempt_run (Raised e st) = st"
| "attempt_run (Continue st) = st"
| "attempt_run (Reached host st) = st"

fun is_authorize :: "event \<Rightarrow> bool" where
  "is_authorize (Call (AuthorizeSecurityGroupIngress group_id perm)) = True"
| "is_authorize ev = False"

definition poll_calls :: "string \<Rightarrow> event set" where
  "poll_calls ident = {Call (Sleep 5), Call (DescribeDBInstances ident)}"

definition decommission_events :: "string \<Rightarrow> event set" where
  "decommission_events ident =
     {Call (DescribeDBInstances ident), Call (DeleteDBInstance ident), Call (Sleep 5)}
       \<union> range Print"

section \<open>Python numbers: results\<close>

text \<open>
  A double is left as it is by rounding, the literal \<open>1.2\<close> is the double nearest to
  \<open>12 / 10\<close> (and below it), an int of \<open>2^1024\<close> or more is too large for a float, and
  no number is less than itself.
\<close>

lemma py_float_round_double:
  assumes "2 ^ 52 \<le> m" and "m < 2 ^ 53" and "- 1074 \<le> e" and "e \<le> 971"
  shows "py_float_round s m e = Finite s m e"
proof -
  from assms(1) have pos: "0 < m"
    by (rule less_le_trans [rotated]) simp
  have "bitlen m \<le> 53"
    using assms(2) by (simp add: bitlen_le_iff_power)
  moreover have "\<not> bitlen m \<le> 52"
    using assms(1) by (simp add: bitlen_le_iff_power)
  ultimately have "bitlen m = 53" by simp
  with pos assms show ?thesis
    by (simp add: py_float_round_def max_def)
qed

lemma float_1_2_nearest:
  "float_1_2 = py_float_round False 5404319552844595 (- 52)
   \<and> finite_value False 5404319552844595 (- 52) < 12 / 10
   \<and> 12 / 10 - finite_value False 5404319552844595 (- 52) < 1 / 2 ^ 53"
  by (simp add: float_1_2_def py_float_round_double finite_value_def signed_def)

lemma py_float_of_int_overflow:
  assumes "2 ^ 1024 \<le> \<bar>n\<bar>"
  shows "py_float_of_int n = Inl OverflowError"
proof -
  from assms have pos: "0 < \<bar>n\<bar>"
    by (rule less_le_trans [rotated]) simp
  have "\<not> bitlen \<bar>n\<bar> \<le> 1024"
    using assms by (simp add: bitlen_le_iff_power)
  then have "971 < bitlen \<bar>n\<bar> - 53" by simp
  then have "py_float_round (n < 0) \<bar>n\<bar> 0 = Infinity (n < 0)"
    using pos by (simp add: py_float_round_def Let_def max_def)
  then show ?thesis by (simp add: py_float_of_int_def)
qed

lemma py_float_lt_irrefl: "\<not> py_float_lt x x"
  by (cases x) simp_all

lemma py_lt_irrefl: "\<not> py_lt x x"
  by (simp add: py_lt_def py_float_lt_irrefl)

section \<open>Marketplace cost and balance: results\<close>

lemma py_product_raises: "py_product (Inl e) ys = Inl e"
  by (induction ys) simp_all

text \<open>
  Claim C2, for Python's arithmetic. For a reward action \<open>calculate_mturk_cost\<close> returns
  \<open>num_hits * num_assignments * reward * 1.2\<close>, multiplied once more by \<open>1.2\<close> exactly
  when \<open>num_assignments >= 10\<close>; for a bonus action it returns \<open>amount * 1.2\<close>. Every
  \<open>*\<close> is Python's: the products are taken from left to right, each float product is
  rounded to the nearest double, \<open>1.2\<close> is the double nearest to \<open>12 / 10\<close>, and a product
  that raises (an int too large for a float) ends the call with its exception.
\<close>

theorem calculate_mturk_cost_formula:
  "calculate_mturk_cost (Reward num_hits num_assignments reward) =
     (if py_le (PyInt 10) num_assignments
      then py_product (Inr num_hits)
             [num_assignments, reward, PyFloat float_1_2, PyFloat float_1_2]
      else py_product (Inr num_hits) [num_assignments, reward, PyFloat float_1_2])
   \<and> calculate_mturk_cost (Bonus amount) = py_product (Inr amount) [PyFloat float_1_2]"
  by (simp add: py_product_raises split: sum.splits)

theorem calculate_mturk_cost_formula_witness:
  "calculate_mturk_cost (Reward (PyInt 2) (PyInt 9) (PyFloat (py_float_round False 1 (- 1)))) =
     Inr (PyFloat (Finite False 6079859496950169 (- 49)))
   \<and> calculate_mturk_cost (Bonus (PyInt 100)) = Inr (PyFloat (py_float_round False 120 0))"
proof -
  note formula = calculate_mturk_cost_formula
    [of "PyInt 2" "PyInt 9" "PyFloat (py_float_round False 1 (- 1))" "PyInt 100"]
  have small: "\<not> py_le (PyInt 10) (PyInt 9)"
    by (simp add: py_le_def signed_def)
  have "py_product (Inr (PyInt 2))
          [PyInt 9, PyFloat (py_float_round False 1 (- 1)), PyFloat float_1_2] =
        Inr (PyFloat (Finite False 6079859496950169 (- 49)))"
    by code_simp
  moreover have "py_product (Inr (PyInt 100)) [PyFloat float_1_2] =
      Inr (PyFloat (py_float_round False 120 0))"
    by code_simp
  ultimately show ?thesis
    using formula small by simp
qed

text \<open>
  The claim read over the real numbers does not hold. For the specification's example
  (2 listings, 10 assignments, reward \<open>0.50\<close>) the exact product is \<open>14.4\<close>; the call returns
  the double \<open>14.399999999999999\<close>, although its neighbour is nearer to \<open>14.4\<close>, so the
  result is not even the float \<open>14.4\<close>. And with \<open>num_hits = 10^400\<close> the call returns
  nothing: it raises \<open>OverflowError\<close>.
\<close>

theorem calculate_mturk_cost_rounding_counterexample:
  "calculate_mturk_cost (Reward (PyInt 2) (PyInt 10) (PyFloat (py_float_round False 1 (- 1)))) =
     Inr (PyFloat (Finite False 8106479329266892 (- 49)))
   \<and> \<bar>144 / 10 - finite_value False 8106479329266893 (- 49)\<bar>
       < \<bar>144 / 10 - finite_value False 8106479329266892 (- 49)\<bar>
   \<and> calculate_mturk_cost (Reward (PyInt (10 ^ 400)) (PyInt 1) (PyInt 1)) = Inl OverflowError"
proof -
  have "calculate_mturk_cost
          (Reward (PyInt 2) (PyInt 10) (PyFloat (py_float_round False 1 (- 1)))) =
        Inr (PyFloat (Finite False 8106479329266892 (- 49)))"
    by code_simp
  moreover have "\<bar>144 / 10 - finite_value False 8106479329266893 (- 49)\<bar>
       < \<bar>144 / 10 - finite_value False 8106479329266892 (- 49)\<bar>"
    by (simp add: finite_value_def signed_def)
  moreover have
    "calculate_mturk_cost (Reward (PyInt (10 ^ 400)) (PyInt 1) (PyInt 1)) = Inl OverflowError"
    by (simp add: py_float_of_int_overflow)
  ultimately show ?thesis by simp
qed

text \<open>
  A cost that is returned for a reward or a bonus is a float, never an int, and the only
  exception is \<open>OverflowError\<close>.
\<close>

lemma py_mul_float_cases:
  "py_mul x (PyFloat y) = Inl OverflowError \<or> (\<exists>z. py_mul x (PyFloat y) = Inr (PyFloat z))"
  by (cases x) (auto simp: py_float_of_int_def map_sum_def split: py_float.splits)

lemma calculate_mturk_cost_bonus_cases:
  "calculate_mturk_cost (Bonus amount) = Inl OverflowError
   \<or> (\<exists>z. calculate_mturk_cost (Bonus amount) = Inr (PyFloat z))"
  using py_mul_float_cases [of amount float_1_2] by simp

text \<open>
  What \<open>check_mturk_balance\<close> does once the balance has been read and
  \<open>balance_needed * 1.2\<close> has been computed: with a balance of at least that product it
  returns \<open>True\<close>, equality included; with a smaller balance the message of line 351
  cannot be built and \<open>TypeError\<close> is raised before \<open>return False\<close> is reached.
\<close>

lemma check_mturk_balance_after_query:
  assumes "get_account_balance P is_sandbox (world st) = (Inr user_balance, w')"
      and "py_mul balance_needed (PyFloat float_1_2) = Inr needed"
  shows "check_mturk_balance P balance_needed is_sandbox st =
           (if py_lt (PyFloat user_balance) needed then Inl TypeError else Inr True,
            \<lparr>world = w', events = events st @ [Call (GetAccountBalance is_sandbox)]\<rparr>)"
  using assms
  by (simp add: check_mturk_balance_def invoke_def str_plus_float_def)

lemma check_mturk_balance_never_False:
  "fst (check_mturk_balance P balance_needed is_sandbox st) \<noteq> Inr False"
  by (auto simp: check_mturk_balance_def invoke_def str_plus_float_def
      split: prod.splits sum.splits py_error.splits)

lemma check_mturk_balance_boundary:
  assumes "get_account_balance P is_sandbox (world st) = (Inr user_balance, w')"
      and "py_mul balance_needed (PyFloat float_1_2) = Inr (PyFloat user_balance)"
  shows "fst (check_mturk_balance P balance_needed is_sandbox st) = Inr True"
  using check_mturk_balance_after_query [OF assms] by (simp add: py_lt_irrefl)

lemma check_mturk_balance_overflow:
  assumes "get_account_balance P is_sandbox (world st) = (Inr user_balance, w')"
      and "py_mul balance_needed (PyFloat float_1_2) = Inl e"
  shows "fst (check_mturk_balance P balance_needed is_sandbox st) = Inl e"
  using assms by (simp add: check_mturk_balance_def invoke_def)

text \<open>
  Claim C3 (the code departs from it). With \<open>balance_needed = 100\<close> and a reported
  balance of \<open>50.0\<close>, below \<open>100 * 1.2 = 120.0\<close>, the call does not return \<open>False\<close>: it
  raises \<open>TypeError\<close>.
\<close>

theorem check_mturk_balance_insufficient_raises:
  "check_mturk_balance cloud_provider (PyInt 100) True
     (start (empty_cloud\<lparr>balance_response := Inr (py_float_round False 50 0)\<rparr>)) =
   (Inl TypeError,
    \<lparr>world = empty_cloud\<lparr>balance_response := Inr (py_float_round False 50 0)\<rparr>,
     events = [Call (GetAccountBalance True)]\<rparr>)"
proof -
  have needed: "py_mul (PyInt 100) (PyFloat float_1_2) = Inr (PyFloat (py_float_round False 120 0))"
    by code_simp
  have less: "py_lt (PyFloat (py_float_round False 50 0)) (PyFloat (py_float_round False 120 0))"
    by code_simp
  show ?thesis
    by (simp add: check_mturk_balance_after_query [OF _ needed] less cloud_provider_def
        start_def)
qed

text \<open>
  Claim C6. When the balance query fails with a \<open>ClientError\<close>, the code \<open>RequestError\<close>
  (the account is not linked to the marketplace) prints the instructions for linking the
  account and leaves through \<open>quit()\<close>, that is \<open>SystemExit\<close>, and no value is returned;
  a \<open>ClientError\<close> with any other code is raised again, unchanged.
\<close>

theorem check_mturk_balance_provider_error:
  assumes "get_account_balance P is_sandbox (world st) = (Inl (ClientError code), w')"
  shows "check_mturk_balance P balance_needed is_sandbox st =
           (if code = ''RequestError''
            then (Inl SystemExit,
                  \<lparr>world = w',
                   events = events st @
                     [Call (GetAccountBalance is_sandbox), Print account_not_linked_message]\<rparr>)
            else (Inl (ClientError code),
                  \<lparr>world = w', events = events st @ [Call (GetAccountBalance is_sandbox)]\<rparr>))"
  using assms by (simp add: check_mturk_balance_def invoke_def py_print_def)

theorem check_mturk_balance_provider_error_witness:
  "fst (check_mturk_balance cloud_provider (PyInt 100) False
          (start (empty_cloud\<lparr>balance_response := Inl (ClientError ''RequestError'')\<rparr>))) =
     Inl SystemExit
   \<and> fst (check_mturk_balance cloud_provider (PyInt 100) False
          (start (empty_cloud\<lparr>balance_response := Inl (ClientError ''ServiceFault'')\<rparr>))) =
     Inl (ClientError ''ServiceFault'')"
  using
    check_mturk_balance_provider_error [of cloud_provider False
      "start (empty_cloud\<lparr>balance_response := Inl (ClientError ''RequestError'')\<rparr>)"
      "''RequestError''" "empty_cloud\<lparr>balance_response := Inl (ClientError ''RequestError'')\<rparr>"
      "PyInt 100"]
    check_mturk_balance_provider_error [of cloud_provider False
      "start (empty_cloud\<lparr>balance_response := Inl (ClientError ''ServiceFault'')\<rparr>)"
      "''ServiceFault''" "empty_cloud\<lparr>balance_response := Inl (ClientError ''ServiceFault'')\<rparr>"
      "PyInt 100"]
  by (simp add: cloud_provider_def start_def)

lemma check_mturk_balance_other_error:
  assumes "get_account_balance P is_sandbox (world st) = (Inl e, w')"
      and "\<not> is_ClientError e"
  shows "fst (check_mturk_balance P balance_needed is_sandbox st) = Inl e"
  using assms
  by (cases e) (simp_all add: check_mturk_balance_def invoke_def is_ClientError_def)

section \<open>Decommissioning and teardown: results\<close>

text \<open>
  Claim C8. When the first \<open>describe_db_instances\<close> of \<open>remove_rds_database\<close> fails with
  a provider error (the instance does not exist), the function returns normally: it
  prints that the database does not exist, issues no delete request and raises nothing.
\<close>

theorem remove_rds_database_absent:
  assumes "describe_db_instances P (rds_db_instance_identifier user_name) (world st) =
             (Inl (ClientError code), w')"
  shows "remove_rds_database P user_name st =
           Some (Inr (),
                 \<lparr>world = w',
                  events = events st @
                    [Call (DescribeDBInstances (rds_db_instance_identifier user_name)),
                     Print ''RDS: Database doesn't exist.'']\<rparr>)"
  using assms
  by (simp add: remove_rds_database_def remove_rds_except_def invoke_def py_print_def
      is_ClientError_def)

theorem remove_rds_database_absent_witness:
  "remove_rds_database cloud_provider ''bob'' (start empty_cloud) =
     Some (Inr (),
           \<lparr>world = empty_cloud,
            events = [Call (DescribeDBInstances ''parlai-mturk-db-bob''),
                      Print ''RDS: Database doesn't exist.'']\<rparr>)"
  using remove_rds_database_absent [of cloud_provider "''bob''" "start empty_cloud"
      "''DBInstanceNotFound''" empty_cloud]
  by (simp add: cloud_provider_def cloud_describe_db_instances_def start_def empty_cloud_def
      rds_db_instance_identifier_def)

text \<open>
  The two creation handlers side by side. A failed \<open>create_db_instance\<close> whose code is
  not \<open>DBInstanceAlreadyExists\<close> leaves \<open>setup_rds\<close> as the exception it is (line 140).
  A failed \<open>create_security_group\<close> whose code is not \<open>InvalidGroup.Duplicate\<close> is
  dropped by the handler of lines 111--115, which has no \<open>else: raise\<close>: the phase ends
  normally with \<open>security_group_id = None\<close>.
\<close>

lemma setup_rds_loop_create_error_raised:
  assumes "create_db_instance P (rds_create_request user_name security_group_id) (world st) =
             (Inl (ClientError code), w')"
      and "code \<noteq> ''DBInstanceAlreadyExists''"
  shows "setup_rds_loop P user_name security_group_id st =
           Some (Inl (ClientError code),
                 \<lparr>world = w',
                  events = events st @
                    [Call (CreateDBInstance (rds_create_request user_name security_group_id))]\<rparr>)"
  using assms
  by (subst setup_rds_loop.simps) (simp add: rds_attempt_def invoke_def Let_def)

lemma ensure_security_group_create_error_dropped:
  assumes "create_security_group P rds_security_group_name rds_security_group_description
             vpc_id (world st) = (Inl (ClientError code), w')"
      and "code \<noteq> ''InvalidGroup.Duplicate''"
  shows "ensure_security_group P vpc_id st =
           (Inr None,
            \<lparr>world = w',
             events = events st @
               [Call (CreateSecurityGroup rds_security_group_name
                        rds_security_group_description vpc_id)]\<rparr>)"
  using assms
  by (simp add: ensure_security_group_def security_group_except_def invoke_def)

text \<open>
  Claim C7 (the code departs from it). A provider on which \<open>create_security_group\<close>
  fails with the code \<open>UnauthorizedOperation\<close>: the security-group phase of \<open>setup_rds\<close>
  raises nothing and goes on with no security group.
\<close>

theorem setup_rds_security_group_error_swallowed:
  "setup_rds_security_group
     (cloud_provider\<lparr>create_security_group :=
        (\<lambda>name description vpc_id c. (Inl (ClientError ''UnauthorizedOperation''), c))\<rparr>)
     (start empty_cloud) =
   (Inr None,
    \<lparr>world = empty_cloud,
     events = [Call DescribeVpcs,
               Call (CreateSecurityGroup ''parlai-mturk-db-security-group''
                       ''Security group for ParlAI MTurk DB'' ''vpc-1'')]\<rparr>)"
  by (simp add: setup_rds_security_group_def first_vpc_id_def invoke_def start_def
      cloud_provider_def ensure_security_group_def security_group_except_def
      rds_security_group_name_def rds_security_group_description_def)

text \<open>
  The role-removal step of \<open>clean_aws\<close>. The name \<open>iam_role_name\<close> is bound nowhere in the
  module, so the first \<open>detach_role_policy\<close> call raises \<open>NameError\<close> while its arguments
  are evaluated; neither handler catches it and no request reaches the provider. With a
  namespace that binds the name, the step does what its handlers say: failed detaches are
  ignored, and a failed \<open>delete_role\<close> is reported as an absent role.
\<close>

lemma iam_role_name_unbound:
  "module_globals user_name parent_dir ''iam_role_name'' = None"
  by (simp add: module_globals_def)

lemma clean_aws_iam_role_raises:
  "clean_aws_iam_role P (module_globals user_name parent_dir) st =
     (Inl (NameError ''iam_role_name''), st)"
  by (simp add: clean_aws_iam_role_def detach_policy_ignoring_def load_global_def
      iam_role_name_unbound clean_aws_except_def is_ClientError_def)

lemma clean_aws_iam_role_absent_when_bound:
  assumes "globals ''iam_role_name'' = Some role_name"
      and "\<And>arn w. \<exists>code. detach_role_policy P role_name arn w = (Inl (ClientError code), w)"
      and "\<And>w. \<exists>code. delete_role P role_name w = (Inl (ClientError code), w)"
  shows "fst (clean_aws_iam_role P globals st) = Inr ()"
proof -
  obtain c1 where d1: "detach_role_policy P role_name
      ''arn:aws:iam::aws:policy/AmazonRDSFullAccess'' (world st) = (Inl (ClientError c1), world st)"
    using assms(2) by blast
  obtain c2 where d2: "detach_role_policy P role_name
      ''arn:aws:iam::aws:policy/AmazonMechanicalTurkFullAccess'' (world st) =
      (Inl (ClientError c2), world st)"
    using assms(2) by blast
  obtain c3 where d3: "delete_role P role_name (world st) = (Inl (ClientError c3), world st)"
    using assms(3) by blast
  show ?thesis
    using assms(1) d1 d2 d3
    by (simp add: clean_aws_iam_role_def detach_policy_ignoring_def load_global_def
        clean_aws_except_def is_ClientError_def invoke_def py_print_def)
qed

text \<open>
  Claim C9 (the code departs from it). A teardown step run by user \<open>bob\<close> against a
  provider on which the role does not exist: the step raises \<open>NameError\<close> instead of
  completing, and issues no detach or delete request.
\<close>

theorem clean_aws_iam_role_name_error:
  "clean_aws_iam_role cloud_provider
     (module_globals ''bob'' ''/home/bob/ParlAI/parlai/mturk/core'') (start empty_cloud) =
   (Inl (NameError ''iam_role_name''), \<lparr>world = empty_cloud, events = []\<rparr>)"
  by (simp add: clean_aws_iam_role_raises start_def)

section \<open>The listing configuration file: results\<close>

text \<open>
  Claim C10. \<open>create_hit_config\<close> leaves a file system that differs from the old one
  only at \<open>hit_config.json\<close>, whose contents are the rendering of the new dictionary and
  nothing else; the dictionary's submit URL is the sandbox URL when the sandbox flag is
  set and the production URL otherwise (the two differ); and a second call overwrites
  the result of the first, so two calls leave what the second call alone leaves.
\<close>

theorem create_hit_config_replaces:
  "create_hit_config dumps parent_dir task_description num_hits num_assignments is_sandbox fs =
     fs(os_path_join parent_dir ''hit_config.json'' \<mapsto>
          dumps (hit_config task_description num_hits num_assignments is_sandbox))
   \<and> map_of (hit_config task_description num_hits num_assignments is_sandbox)
         ''mturk_submit_url'' =
       Some (JStr (if is_sandbox then ''https://workersandbox.mturk.com/mturk/externalSubmit''
                   else ''https://www.mturk.com/mturk/externalSubmit''))
   \<and> mturk_submit_url True \<noteq> mturk_submit_url False
   \<and> create_hit_config dumps parent_dir task_description' num_hits' num_assignments' is_sandbox'
         (create_hit_config dumps parent_dir task_description num_hits num_assignments
            is_sandbox fs) =
       create_hit_config dumps parent_dir task_description' num_hits' num_assignments'
         is_sandbox' fs"
proof -
  have eq: "\<And>t h a s g. create_hit_config dumps parent_dir t h a s g =
      g(os_path_join parent_dir ''hit_config.json'' \<mapsto> dumps (hit_config t h a s))"
    by (auto simp: create_hit_config_def Let_def split: option.splits)
  have url: "map_of (hit_config task_description num_hits num_assignments is_sandbox)
         ''mturk_submit_url'' =
       Some (JStr (if is_sandbox then ''https://workersandbox.mturk.com/mturk/externalSubmit''
                   else ''https://www.mturk.com/mturk/externalSubmit''))"
    by (simp add: hit_config_def mturk_submit_url_def)
  have ne: "mturk_submit_url True \<noteq> mturk_submit_url False"
    by (simp add: mturk_submit_url_def)
  show ?thesis
    using url ne by (simp add: eq)
qed

theorem create_hit_config_replaces_witness:
  "create_hit_config (\<lambda>d. concat (map fst d)) ''/srv/core'' ''second'' 2 3 False
     (create_hit_config (\<lambda>d. concat (map fst d)) ''/srv/core'' ''first'' 1 1 True Map.empty) =
   [''/srv/core/hit_config.json'' \<mapsto>
      ''task_descriptionnum_hitsnum_assignmentsis_sandboxmturk_submit_url'']
   \<and> map_of (hit_config ''first'' 1 1 True) ''mturk_submit_url'' =
       Some (JStr ''https://workersandbox.mturk.com/mturk/externalSubmit'')"
proof -
  note first_then_second =
    create_hit_config_replaces [of "\<lambda>d. concat (map fst d)" "''/srv/core''" "''first''" 1 1 True
      Map.empty "''second''" 2 3 False]
  note second_alone =
    create_hit_config_replaces [of "\<lambda>d. concat (map fst d)" "''/srv/core''" "''second''" 2 3 False
      Map.empty "''second''" 2 3 False]
  have a: "create_hit_config (\<lambda>d. concat (map fst d)) ''/srv/core'' ''second'' 2 3 False
       (create_hit_config (\<lambda>d. concat (map fst d)) ''/srv/core'' ''first'' 1 1 True Map.empty) =
     create_hit_config (\<lambda>d. concat (map fst d)) ''/srv/core'' ''second'' 2 3 False Map.empty"
    using first_then_second by blast
  have b: "create_hit_config (\<lambda>d. concat (map fst d)) ''/srv/core'' ''second'' 2 3 False Map.empty =
     Map.empty(os_path_join ''/srv/core'' ''hit_config.json'' \<mapsto>
       concat (map fst (hit_config ''second'' 2 3 False)))"
    using second_alone by blast
  have c: "map_of (hit_config ''first'' 1 1 True) ''mturk_submit_url'' =
       Some (JStr ''https://workersandbox.mturk.com/mturk/externalSubmit'')"
    using first_then_second by simp
  show ?thesis
    unfolding a b using c by (simp add: os_path_join_def hit_config_def)
qed

section \<open>Routing uploaded files: results\<close>

text \<open>
  The last piece of \<open>str.split\<close>: the whole string when it has no separator, else what
  follows the last separator.
\<close>

lemma py_split_not_Nil: "py_split c s \<noteq> []"
  by (induction s) (auto split: list.splits)

lemma py_split_no_separator: "c \<notin> set s \<Longrightarrow> py_split c s = [s]"
  by (induction s) auto

lemma py_split_two_pieces: "c \<in> set s \<Longrightarrow> tl (py_split c s) \<noteq> []"
  by (induction s) (auto simp: py_split_not_Nil split: list.splits)

lemma last_py_split_after_separator:
  "c \<notin> set b \<Longrightarrow> last (py_split c (a @ c # b)) = b"
proof (induction a)
  case Nil
  then show ?case by (simp add: py_split_no_separator)
next
  case (Cons x a)
  have two: "tl (py_split c (a @ c # b)) \<noteq> []"
    by (rule py_split_two_pieces) simp
  show ?case
  proof (cases "x = c")
    case True
    with Cons show ?thesis by (simp add: py_split_not_Nil)
  next
    case False
    with Cons two show ?thesis
      by (cases "py_split c (a @ c # b)") auto
  qed
qed

lemma head_py_split_prefix: "py_split c s = q # qs \<Longrightarrow> prefix q s"
  by (induction s arbitrary: q qs) (auto split: if_splits list.splits)

lemma py_split_piece_sublist: "x \<in> set (py_split c s) \<Longrightarrow> sublist x s"
proof (induction s arbitrary: x)
  case Nil
  then show ?case by simp
next
  case (Cons y ys)
  show ?case
  proof (cases "y = c")
    case True
    with Cons show ?thesis by (auto simp: sublist_Cons_right)
  next
    case False
    obtain q qs where sp: "py_split c ys = q # qs"
      using py_split_not_Nil [of c ys] by (cases "py_split c ys") auto
    from Cons.prems False sp have "x = y # q \<or> x \<in> set qs" by simp
    then show ?thesis
    proof
      assume "x = y # q"
      with head_py_split_prefix [OF sp] show ?thesis by simp
    next
      assume "x \<in> set qs"
      with sp have "x \<in> set (py_split c ys)" by simp
      then have "sublist x ys" by (rule Cons.IH)
      then show ?thesis by (simp add: sublist_Cons_right)
    qed
  qed
qed

lemma last_py_split_cases:
  "(c \<notin> set s \<and> last (py_split c s) = s)
   \<or> (\<exists>a b. s = a @ c # b \<and> c \<notin> set b \<and> last (py_split c s) = b)"
proof (cases "c \<in> set s")
  case True
  then obtain a b where "s = a @ c # b" "c \<notin> set b"
    by (auto dest: split_list_last)
  then show ?thesis using last_py_split_after_separator [of c b a] by auto
next
  case False
  then show ?thesis by (simp add: py_split_no_separator)
qed

lemma last_py_split_no_separator: "c \<notin> set (last (py_split c s))"
  using last_py_split_cases [of c s] by auto

lemma last_py_split_whole_or_after_separator:
  "last (py_split c s) = s \<or> suffix (c # last (py_split c s)) s"
proof -
  from last_py_split_cases [of c s] show ?thesis
  proof (elim disjE exE conjE)
    assume "last (py_split c s) = s"
    then show ?thesis by simp
  next
    fix a b
    assume "s = a @ c # b" and "last (py_split c s) = b"
    then have "s = a @ c # last (py_split c s)" by simp
    then have "suffix (c # last (py_split c s)) s" by (rule suffixI)
    then show ?thesis by simp
  qed
qed

lemma file_dest_html_prefix:
  "prefix (dest_path @ ''html/'') (file_dest file_src) \<longleftrightarrow> sublist ''html'' file_src"
proof (cases "sublist ''html'' file_src")
  case True
  then show ?thesis by (simp add: file_dest_def)
next
  case False
  have "\<not> prefix ''html/'' (last (py_split CHR ''/'' file_src))"
  proof
    assume "prefix ''html/'' (last (py_split CHR ''/'' file_src))"
    then have "set ''html/'' \<subseteq> set (last (py_split CHR ''/'' file_src))"
      by (rule set_mono_prefix)
    then show False using last_py_split_no_separator [of "CHR ''/''" file_src] by simp
  qed
  with False show ?thesis by (simp add: file_dest_def)
qed

text \<open>
  Claim C4, as the code has it. An entry is written under \<open>/var/www/demoapp/html/\<close>
  exactly when the text \<open>html\<close> occurs anywhere in its source path (in a directory
  name, in the file name or in its extension); every other entry is written directly
  under \<open>/var/www/demoapp/\<close>. A path with a segment \<open>html\<close> is among the former. In
  both cases the file name is the last piece of the source path: it holds no separator,
  and it is the whole path or what follows its last separator.
\<close>

theorem file_dest_routing:
  "file_dest file_src =
     (if sublist ''html'' file_src then ''/var/www/demoapp/html/'' else ''/var/www/demoapp/'')
       @ last (py_split CHR ''/'' file_src)
   \<and> (prefix ''/var/www/demoapp/html/'' (file_dest file_src) \<longleftrightarrow> sublist ''html'' file_src)
   \<and> (has_html_segment file_src \<longrightarrow> sublist ''html'' file_src)
   \<and> CHR ''/'' \<notin> set (last (py_split CHR ''/'' file_src))
   \<and> (last (py_split CHR ''/'' file_src) = file_src
        \<or> suffix (CHR ''/'' # last (py_split CHR ''/'' file_src)) file_src)"
proof -
  have a: "file_dest file_src =
     (if sublist ''html'' file_src then ''/var/www/demoapp/html/'' else ''/var/www/demoapp/'')
       @ last (py_split CHR ''/'' file_src)"
    by (simp add: file_dest_def dest_path_def)
  have b: "prefix ''/var/www/demoapp/html/'' (file_dest file_src) \<longleftrightarrow> sublist ''html'' file_src"
    using file_dest_html_prefix [of file_src] by (simp add: dest_path_def)
  have c: "has_html_segment file_src \<longrightarrow> sublist ''html'' file_src"
    unfolding has_html_segment_def by (blast intro: py_split_piece_sublist)
  have d: "CHR ''/'' \<notin> set (last (py_split CHR ''/'' file_src))"
    by (rule last_py_split_no_separator)
  have e: "last (py_split CHR ''/'' file_src) = file_src
        \<or> suffix (CHR ''/'' # last (py_split CHR ''/'' file_src)) file_src"
    by (rule last_py_split_whole_or_after_separator)
  from a b c d e show ?thesis by blast
qed

theorem file_dest_routing_witness:
  "has_html_segment ''/srv/core/html/core.html''
   \<and> file_dest ''/srv/core/html/core.html'' = ''/var/www/demoapp/html/core.html''"
proof -
  note routing = file_dest_routing [of "''/srv/core/html/core.html''"]
  have segment: "has_html_segment ''/srv/core/html/core.html''"
    by code_simp
  with routing have "sublist ''html'' ''/srv/core/html/core.html''"
    by blast
  with routing have "file_dest ''/srv/core/html/core.html'' =
      ''/var/www/demoapp/html/'' @ last (py_split CHR ''/'' ''/srv/core/html/core.html'')"
    by simp
  moreover have "last (py_split CHR ''/'' ''/srv/core/html/core.html'') = ''core.html''"
    by code_simp
  ultimately show ?thesis
    using segment by simp
qed

text \<open>
  Claim C4 as stated fails: \<open>task/index.html\<close> has the segments \<open>task\<close> and
  \<open>index.html\<close>, none of them \<open>html\<close>, and is written under \<open>html/\<close> all the same.
\<close>

theorem file_dest_segment_counterexample:
  "file_dest ''task/index.html'' = ''/var/www/demoapp/html/index.html''
   \<and> \<not> has_html_segment ''task/index.html''"
  by code_simp

section \<open>The security group: results\<close>

text \<open>
  Which calls authorise the ingress rule: the handler never does, and
  \<open>ensure_security_group\<close> issues the authorisation exactly once when the creation
  request succeeded and never otherwise, whatever the provider answers.
\<close>

lemma security_group_except_authorizations:
  "filter is_authorize (events (snd (security_group_except P security_group_id e st))) =
     filter is_authorize (events st)"
proof (cases e)
  case (ClientError code)
  show ?thesis
  proof (cases "code = ''InvalidGroup.Duplicate''")
    case True
    obtain r st1 where inv: "invoke (DescribeSecurityGroups [rds_security_group_name])
        (describe_security_groups P [rds_security_group_name])
        (py_print ''RDS: Security group already exists.'' st) = (r, st1)"
      by (cases "invoke (DescribeSecurityGroups [rds_security_group_name])
        (describe_security_groups P [rds_security_group_name])
        (py_print ''RDS: Security group already exists.'' st)") auto
    then have ev: "filter is_authorize (events st1) = filter is_authorize (events st)"
      by (auto simp: invoke_def py_print_def split: prod.splits)
    from ClientError True inv ev show ?thesis
      by (simp add: security_group_except_def split: sum.splits list.splits)
  next
    case False
    with ClientError show ?thesis by (simp add: security_group_except_def)
  qed
qed (simp_all add: security_group_except_def)

lemma ensure_security_group_authorizations:
  "filter is_authorize (events (snd (ensure_security_group P vpc_id st))) =
     filter is_authorize (events st) @
       (case fst (create_security_group P rds_security_group_name
                    rds_security_group_description vpc_id (world st)) of
          Inl e \<Rightarrow> []
        | Inr group_id \<Rightarrow> [Call (AuthorizeSecurityGroupIngress group_id rds_ingress_permission)])"
proof -
  obtain r w1 where cr: "create_security_group P rds_security_group_name
      rds_security_group_description vpc_id (world st) = (r, w1)"
    by (cases "create_security_group P rds_security_group_name
      rds_security_group_description vpc_id (world st)") auto
  show ?thesis
  proof (cases r)
    case (Inl e)
    with cr show ?thesis
      by (simp add: ensure_security_group_def invoke_def security_group_except_authorizations)
  next
    case (Inr group_id)
    obtain r2 w2 where au: "authorize_security_group_ingress P group_id rds_ingress_permission w1 =
        (r2, w2)"
      by (cases "authorize_security_group_ingress P group_id rds_ingress_permission w1") auto
    from cr Inr au show ?thesis
      by (cases r2)
        (simp_all add: ensure_security_group_def invoke_def py_print_def
          security_group_except_authorizations)
  qed
qed

text \<open>
  Claim C5. Two calls of the security-group phase, one after the other, on a provider
  that creates the group on the first call (and accepts the ingress rule), answers the
  second creation request with \<open>InvalidGroup.Duplicate\<close> and finds the created group
  when it is looked up by name: both calls return the id of that group; the first call
  issues the one ingress authorisation; the second call, which resolves the duplicate by
  lookup, issues none, and changes the provider only through the rejected creation
  request and the lookup.
\<close>

theorem ensure_security_group_twice:
  assumes created:
      "create_security_group P rds_security_group_name rds_security_group_description vpc_id
         (world st) = (Inr group_id, w1)"
    and authorized:
      "authorize_security_group_ingress P group_id rds_ingress_permission w1 = (Inr (), w2)"
    and duplicate:
      "create_security_group P rds_security_group_name rds_security_group_description vpc_id
         w2 = (Inl (ClientError ''InvalidGroup.Duplicate''), w3)"
    and found:
      "describe_security_groups P [rds_security_group_name] w3 = (Inr (group_id # others), w4)"
  shows "fst (ensure_security_group P vpc_id st) = Inr (Some group_id)
       \<and> world (snd (ensure_security_group P vpc_id st)) = w2
       \<and> filter is_authorize (events (snd (ensure_security_group P vpc_id st))) =
           filter is_authorize (events st) @
             [Call (AuthorizeSecurityGroupIngress group_id rds_ingress_permission)]
       \<and> fst (ensure_security_group P vpc_id (snd (ensure_security_group P vpc_id st))) =
           Inr (Some group_id)
       \<and> world (snd (ensure_security_group P vpc_id (snd (ensure_security_group P vpc_id st)))) =
           w4
       \<and> filter is_authorize
           (events (snd (ensure_security_group P vpc_id (snd (ensure_security_group P vpc_id st))))) =
           filter is_authorize (events (snd (ensure_security_group P vpc_id st)))"
proof -
  define st1 where "st1 = snd (ensure_security_group P vpc_id st)"
  have first: "ensure_security_group P vpc_id st =
      (Inr (Some group_id),
       \<lparr>world = w2,
        events = events st @
          [Call (CreateSecurityGroup rds_security_group_name rds_security_group_description vpc_id),
           Print ''RDS: Security group created.'',
           Call (AuthorizeSecurityGroupIngress group_id rds_ingress_permission),
           Print ''RDS: Security group ingress IP permissions set.'']\<rparr>)"
    using created authorized
    by (simp add: ensure_security_group_def invoke_def py_print_def)
  then have w: "world st1 = w2" by (simp add: st1_def)
  have second: "ensure_security_group P vpc_id st1 =
      (Inr (Some group_id),
       \<lparr>world = w4,
        events = events st1 @
          [Call (CreateSecurityGroup rds_security_group_name rds_security_group_description vpc_id),
           Print ''RDS: Security group already exists.'',
           Call (DescribeSecurityGroups [rds_security_group_name])]\<rparr>)"
    using duplicate found w
    by (simp add: ensure_security_group_def security_group_except_def invoke_def py_print_def)
  show ?thesis
    unfolding st1_def [symmetric] using first second by (simp add: st1_def)
qed

theorem ensure_security_group_twice_witness:
  "fst (ensure_security_group cloud_provider ''vpc-1'' (start empty_cloud)) =
     Inr (Some ''sg-parlai-mturk-db-security-group'')
   \<and> fst (ensure_security_group cloud_provider ''vpc-1''
            (snd (ensure_security_group cloud_provider ''vpc-1'' (start empty_cloud)))) =
     Inr (Some ''sg-parlai-mturk-db-security-group'')
   \<and> rules (world (snd (ensure_security_group cloud_provider ''vpc-1''
            (snd (ensure_security_group cloud_provider ''vpc-1'' (start empty_cloud)))))) =
     [(''sg-parlai-mturk-db-security-group'', rds_ingress_permission)]"
proof -
  let ?g = "''sg-parlai-mturk-db-security-group''"
  let ?w1 = "empty_cloud\<lparr>groups := [(rds_security_group_name, ?g)]\<rparr>"
  let ?w2 = "?w1\<lparr>rules := [(?g, rds_ingress_permission)]\<rparr>"
  have h1: "create_security_group cloud_provider rds_security_group_name
      rds_security_group_description ''vpc-1'' (world (start empty_cloud)) = (Inr ?g, ?w1)"
    by (simp add: cloud_provider_def cloud_create_security_group_def start_def empty_cloud_def
        rds_security_group_name_def)
  have h2: "authorize_security_group_ingress cloud_provider ?g rds_ingress_permission ?w1 =
      (Inr (), ?w2)"
    by (simp add: cloud_provider_def empty_cloud_def)
  have h3: "create_security_group cloud_provider rds_security_group_name
      rds_security_group_description ''vpc-1'' ?w2 =
      (Inl (ClientError ''InvalidGroup.Duplicate''), ?w2)"
    by (simp add: cloud_provider_def cloud_create_security_group_def empty_cloud_def)
  have h4: "describe_security_groups cloud_provider [rds_security_group_name] ?w2 =
      (Inr (?g # []), ?w2)"
    by (simp add: cloud_provider_def cloud_describe_security_groups_def empty_cloud_def)
  from ensure_security_group_twice [OF h1 h2 h3 h4] show ?thesis
    by (simp add: empty_cloud_def)
qed

section \<open>Provisioning: results\<close>

text \<open>
  The polling loop only pauses and describes; whatever it returns, the events of the run
  are extended and never rewritten.
\<close>

lemma poll_while_status_events:
  assumes "poll_while_status P ident s d st = Some y"
  shows "\<exists>es. events (snd y) = events st @ es \<and> set es \<subseteq> poll_calls ident"
proof -
  let ?Q = "\<lambda>x y. case x of
              ((((P :: 'a provider, ident), s :: string), d :: db_instance), st :: 'a run) \<Rightarrow>
                \<exists>es. events (snd y) = events st @ es \<and> set es \<subseteq> poll_calls ident"
  have "?Q ((((P, ident), s), d), st) y"
  proof (rule poll_while_status.raw_induct [where Pa = ?Q, OF _ assms], goal_cases)
    case (1 f P ident s d st y)
    show ?case
    proof (cases "DBInstanceStatus d = s")
      case False
      with 1(2) show ?thesis by auto
    next
      case True
      obtain r st1 where inv: "invoke (DescribeDBInstances ident) (describe_db_instances P ident)
          (invoke_unit (Sleep 5) (sleep P 5) st) = (r, st1)"
        by (cases "invoke (DescribeDBInstances ident) (describe_db_instances P ident)
          (invoke_unit (Sleep 5) (sleep P 5) st)") auto
      then have ev1: "events st1 = events st @ [Call (Sleep 5), Call (DescribeDBInstances ident)]"
        by (auto simp: invoke_def invoke_unit_def split: prod.splits)
      show ?thesis
      proof (cases r)
        case (Inl e)
        with 1(2) True inv ev1 show ?thesis by (auto simp: poll_calls_def)
      next
        case (Inr ds)
        show ?thesis
        proof (cases ds)
          case Nil
          with 1(2) True inv ev1 Inr show ?thesis by (auto simp: poll_calls_def)
        next
          case (Cons d' ds')
          with 1(2) True inv Inr have "f P ident s d' st1 = Some y" by simp
          from 1(1) [OF this] obtain es where
            "events (snd y) = events st1 @ es" "set es \<subseteq> poll_calls ident" by auto
          with ev1 show ?thesis by (auto simp: poll_calls_def)
        qed
      qed
    qed
  qed
  then show ?thesis by simp
qed

lemma poll_calls_decommission: "poll_calls ident \<subseteq> decommission_events ident"
  by (auto simp: poll_calls_def decommission_events_def)

lemma poll_calls_no_delete:
  "set es \<subseteq> poll_calls ident \<Longrightarrow> filter ((=) (Call (DeleteDBInstance ident))) es = []"
  by (auto simp: poll_calls_def filter_empty_conv)

lemma remove_rds_wait_events:
  assumes "remove_rds_wait P ident d st = Some y"
  shows "\<exists>es. events (snd y) = events st @ es \<and> set es \<subseteq> decommission_events ident
              \<and> filter ((=) (Call (DeleteDBInstance ident))) es = []"
proof -
  from assms obtain r st1 where p: "poll_while_status P ident ''deleting'' d st = Some (r, st1)"
    by (cases "poll_while_status P ident ''deleting'' d st") (auto simp: remove_rds_wait_def)
  from poll_while_status_events [OF p] obtain es where
    es: "events st1 = events st @ es" "set es \<subseteq> poll_calls ident" by auto
  have nodel: "filter ((=) (Call (DeleteDBInstance ident))) es = []"
    using es(2) by (rule poll_calls_no_delete)
  have sub: "set es \<subseteq> decommission_events ident"
    using es(2) poll_calls_decommission by blast
  show ?thesis
  proof (cases r)
    case (Inl e)
    show ?thesis
    proof (cases "is_ClientError e")
      case True
      with assms p Inl have "events (snd y) = events st @ es @ [Print ''RDS: Database deleted.'']"
        using es(1) by (auto simp: remove_rds_wait_def py_print_def)
      with sub nodel show ?thesis
        by (intro exI [of _ "es @ [Print ''RDS: Database deleted.'']"])
          (simp add: decommission_events_def)
    next
      case False
      with assms p Inl have "events (snd y) = events st @ es"
        using es(1) by (auto simp: remove_rds_wait_def)
      with sub nodel show ?thesis by blast
    qed
  next
    case (Inr d')
    with assms p have "events (snd y) = events st @ es"
      using es(1) by (auto simp: remove_rds_wait_def)
    with sub nodel show ?thesis by blast
  qed
qed

lemma remove_rds_except_events:
  "\<exists>es. events (snd (remove_rds_except e st)) = events st @ es \<and> set es \<subseteq> range Print"
  by (cases "is_ClientError e") (auto simp: remove_rds_except_def py_print_def)

text \<open>
  \<open>remove_rds_database\<close> first describes the instance. When the instance is reported and
  is not being deleted already, the delete request comes next. After that the function
  only describes, pauses and prints: it sends at most one delete request.
\<close>

lemma remove_rds_database_trace:
  assumes "remove_rds_database P user_name st = Some y"
  shows "\<exists>es. events (snd y) =
                events st @ Call (DescribeDBInstances (rds_db_instance_identifier user_name)) # es
              \<and> set es \<subseteq> decommission_events (rds_db_instance_identifier user_name)
              \<and> length (filter ((=) (Call (DeleteDBInstance (rds_db_instance_identifier user_name))))
                    es) \<le> 1
              \<and> (\<forall>d ds w.
                    describe_db_instances P (rds_db_instance_identifier user_name) (world st) =
                      (Inr (d # ds), w)
                    \<and> DBInstanceStatus d \<noteq> ''deleting'' \<longrightarrow>
                    (\<exists>es'. es =
                       Call (DeleteDBInstance (rds_db_instance_identifier user_name)) # es'))"
proof -
  let ?ident = "rds_db_instance_identifier user_name"
  let ?D = "decommission_events ?ident"
  let ?del = "Call (DeleteDBInstance ?ident)"
  have print_in: "\<And>es. set es \<subseteq> range Print \<Longrightarrow> set es \<subseteq> ?D"
    by (auto simp: decommission_events_def)
  have print_nodel: "\<And>es. set es \<subseteq> range Print \<Longrightarrow> filter ((=) ?del) es = []"
    by (auto simp: filter_empty_conv)
  obtain r0 w1 where d0: "describe_db_instances P ?ident (world st) = (r0, w1)"
    by (cases "describe_db_instances P ?ident (world st)") auto
  define st1 where "st1 = \<lparr>world = w1, events = events st @ [Call (DescribeDBInstances ?ident)]\<rparr>"
  have i0: "invoke (DescribeDBInstances ?ident) (describe_db_instances P ?ident) st = (r0, st1)"
    by (simp add: invoke_def d0 st1_def)
  have ev1: "events st1 = events st @ [Call (DescribeDBInstances ?ident)]"
    by (simp add: st1_def)
  have d_in: "Call (DescribeDBInstances ?ident) \<in> ?D" and del_in: "?del \<in> ?D"
    by (simp_all add: decommission_events_def)
  show ?thesis
  proof (cases r0)
    case (Inl e)
    with assms i0 have y: "y = remove_rds_except e st1"
      by (simp add: remove_rds_database_def)
    from remove_rds_except_events [of e st1] obtain es where
      es: "events (snd (remove_rds_except e st1)) = events st1 @ es" "set es \<subseteq> range Print"
      by auto
    show ?thesis
      using y es ev1 print_in [OF es(2)] print_nodel [OF es(2)] d0 Inl
      by (intro exI [of _ es]) simp
  next
    case (Inr ds)
    show ?thesis
    proof (cases ds)
      case Nil
      with assms i0 Inr have "y = (Inl IndexError, st1)"
        by (simp add: remove_rds_database_def)
      with ev1 d0 Inr Nil show ?thesis
        by (intro exI [of _ "[]"]) simp
    next
      case (Cons d ds')
      show ?thesis
      proof (cases "DBInstanceStatus d = ''deleting''")
        case True
        let ?st1' = "py_print ''RDS: Waiting for previous delete operation to complete. This might take a couple minutes...'' st1"
        from assms i0 Inr Cons True have w: "remove_rds_wait P ?ident d ?st1' = Some y"
          by (simp add: remove_rds_database_def)
        from remove_rds_wait_events [OF w] obtain es where
          es: "events (snd y) = events ?st1' @ es" "set es \<subseteq> ?D" "filter ((=) ?del) es = []"
          by auto
        have "events ?st1' = events st @ [Call (DescribeDBInstances ?ident),
            Print ''RDS: Waiting for previous delete operation to complete. This might take a couple minutes...'']"
          using ev1 by (simp add: py_print_def)
        with es d0 Inr Cons True show ?thesis
          by (intro exI [of _ "[Print ''RDS: Waiting for previous delete operation to complete. This might take a couple minutes...''] @ es"])
            (simp add: decommission_events_def)
      next
        case False
        obtain r1 st2 where i1: "invoke (DeleteDBInstance ?ident) (delete_db_instance P ?ident) st1 =
            (r1, st2)"
          by (cases "invoke (DeleteDBInstance ?ident) (delete_db_instance P ?ident) st1") auto
        then have ev2: "events st2 = events st @ [Call (DescribeDBInstances ?ident), ?del]"
          using ev1 by (auto simp: invoke_def split: prod.splits)
        show ?thesis
        proof (cases r1)
          case (Inl e)
          with assms i0 Inr Cons False i1 have y: "y = remove_rds_except e st2"
            by (simp add: remove_rds_database_def)
          from remove_rds_except_events [of e st2] obtain es where
            es: "events (snd (remove_rds_except e st2)) = events st2 @ es" "set es \<subseteq> range Print"
            by auto
          show ?thesis
            using y es ev2 del_in print_in [OF es(2)] print_nodel [OF es(2)]
            by (intro exI [of _ "[?del] @ es"]) simp
        next
          case r1: (Inr u)
          obtain r2 st3 where i2: "invoke (DescribeDBInstances ?ident)
              (describe_db_instances P ?ident) st2 = (r2, st3)"
            by (cases "invoke (DescribeDBInstances ?ident) (describe_db_instances P ?ident) st2")
              auto
          then have ev3: "events st3 = events st @
              [Call (DescribeDBInstances ?ident), ?del, Call (DescribeDBInstances ?ident)]"
            using ev2 by (auto simp: invoke_def split: prod.splits)
          show ?thesis
          proof (cases r2)
            case (Inl e)
            with assms i0 Inr Cons False i1 r1 i2 have y: "y = remove_rds_except e st3"
              by (simp add: remove_rds_database_def)
            from remove_rds_except_events [of e st3] obtain es where
              es: "events (snd (remove_rds_except e st3)) = events st3 @ es"
                "set es \<subseteq> range Print"
              by auto
            show ?thesis
              using y es ev3 d_in del_in print_in [OF es(2)] print_nodel [OF es(2)]
              by (intro exI [of _ "[?del, Call (DescribeDBInstances ?ident)] @ es"]) simp
          next
            case r2: (Inr ds2)
            show ?thesis
            proof (cases ds2)
              case Nil
              with assms i0 Inr Cons False i1 r1 i2 r2 have "y = (Inl IndexError, st3)"
                by (simp add: remove_rds_database_def)
              with ev3 d_in del_in show ?thesis
                by (intro exI [of _ "[?del, Call (DescribeDBInstances ?ident)]"]) simp
            next
              case ds2: (Cons d' ds2')
              let ?st3' = "if DBInstanceStatus d' = ''deleting''
                then py_print ''RDS: Deleting database. This might take a couple minutes...'' st3
                else st3"
              from assms i0 Inr Cons False i1 r1 i2 r2 ds2
              have w: "remove_rds_wait P ?ident d' ?st3' = Some y"
                by (simp add: remove_rds_database_def)
              from remove_rds_wait_events [OF w] obtain es where
                es: "events (snd y) = events ?st3' @ es" "set es \<subseteq> ?D"
                  "filter ((=) ?del) es = []"
                by auto
              obtain ps where ps: "events ?st3' = events st3 @ ps" "set ps \<subseteq> range Print"
                by (cases "DBInstanceStatus d' = ''deleting''") (auto simp: py_print_def)
              show ?thesis
                using es ps ev3 d_in del_in print_in [OF ps(2)] print_nodel [OF ps(2)]
                by (intro exI [of _ "[?del, Call (DescribeDBInstances ?ident)] @ ps @ es"]) simp
            qed
          qed
        qed
      qed
    qed
  qed
qed

lemma remove_rds_database_events:
  assumes "remove_rds_database P user_name st = Some y"
  shows "\<exists>es. events (snd y) = events st @ es
              \<and> set es \<subseteq> decommission_events (rds_db_instance_identifier user_name)
              \<and> length (filter ((=) (Call (DeleteDBInstance (rds_db_instance_identifier user_name))))
                    es) \<le> 1"
proof -
  let ?ident = "rds_db_instance_identifier user_name"
  from remove_rds_database_trace [OF assms] obtain es where
    es: "events (snd y) = events st @ Call (DescribeDBInstances ?ident) # es"
      "set es \<subseteq> decommission_events ?ident"
      "length (filter ((=) (Call (DeleteDBInstance ?ident))) es) \<le> 1"
    by (elim exE conjE) (rule that)
  then show ?thesis
    by (intro exI [of _ "Call (DescribeDBInstances ?ident) # es"])
      (simp add: decommission_events_def)
qed

text \<open>
  Every pass through the loop body starts with the creation request, and the events of
  a run are only ever extended; so a run of the loop that returns has the creation
  request as its first event.
\<close>

lemma invoke_events: "invoke c f st = (r, st1) \<Longrightarrow> events st1 = events st @ [Call c]"
  by (auto simp: invoke_def split: prod.splits)

lemma py_print_events: "events (py_print s st) = events st @ [Print s]"
  by (simp add: py_print_def)

lemma prefix_step: "events st1 = events st @ es \<Longrightarrow> prefix (events st1) zs \<Longrightarrow> prefix (events st) zs"
  by (metis append_prefixD)

lemma poll_while_status_prefix:
  "poll_while_status P ident s d st = Some y \<Longrightarrow> prefix (events st) (events (snd y))"
  using poll_while_status_events [of P ident s d st y] by (auto simp: prefix_def)

lemma remove_rds_database_prefix:
  "remove_rds_database P user_name st = Some y \<Longrightarrow> prefix (events st) (events (snd y))"
  using remove_rds_database_events [of P user_name st y] by (auto simp: prefix_def)

lemma rds_endpoint_stage_run: "attempt_run (rds_endpoint_stage d st) = st"
  by (cases "Endpoint d") (simp_all add: rds_endpoint_stage_def)

lemma rds_creating_stage_prefix:
  assumes "rds_creating_stage P ident d st = Some a"
  shows "prefix (events st) (events (attempt_run a))"
proof (cases "DBInstanceStatus d = ''creating''")
  case False
  with assms show ?thesis by (auto simp: rds_creating_stage_def rds_endpoint_stage_run)
next
  case True
  let ?st' = "py_print ''RDS: Waiting for newly created database to be available. This might take a couple minutes...'' st"
  from assms True obtain r st1 where
    p: "poll_while_status P ident ''creating'' d ?st' = Some (r, st1)"
    by (cases "poll_while_status P ident ''creating'' d ?st'")
      (auto simp: rds_creating_stage_def)
  from poll_while_status_prefix [OF p] have "prefix (events ?st') (events st1)" by simp
  then have pre: "prefix (events st) (events st1)"
    by (rule prefix_step [OF py_print_events])
  from assms True p have "attempt_run a = st1"
    by (cases r) (auto simp: rds_creating_stage_def rds_endpoint_stage_run)
  with pre show ?thesis by simp
qed

lemma rds_deleting_stage_prefix:
  assumes "rds_deleting_stage P ident d st = Some a"
  shows "prefix (events st) (events (attempt_run a))"
proof (cases "DBInstanceStatus d = ''deleting''")
  case False
  with assms show ?thesis by (auto simp: rds_deleting_stage_def intro: rds_creating_stage_prefix)
next
  case True
  let ?st' = "py_print ''RDS: Waiting for previous delete operation to complete. This might take a couple minutes...'' st"
  from assms True obtain r st1 where
    p: "poll_while_status P ident ''deleting'' d ?st' = Some (r, st1)"
    by (cases "poll_while_status P ident ''deleting'' d ?st'")
      (auto simp: rds_deleting_stage_def)
  from poll_while_status_prefix [OF p] have "prefix (events ?st') (events st1)" by simp
  then have pre: "prefix (events st) (events st1)"
    by (rule prefix_step [OF py_print_events])
  show ?thesis
  proof (cases r)
    case (Inl e)
    with assms True p have "attempt_run a = st1"
      by (cases "is_ClientError e") (auto simp: rds_deleting_stage_def)
    with pre show ?thesis by simp
  next
    case (Inr d')
    with assms True p have "rds_creating_stage P ident d' st1 = Some a"
      by (simp add: rds_deleting_stage_def)
    from rds_creating_stage_prefix [OF this] pre show ?thesis by (rule prefix_order.trans [rotated])
  qed
qed

lemma rds_describe_stage_prefix:
  assumes "rds_describe_stage P user_name st = Some a"
  shows "prefix (events st) (events (attempt_run a))"
proof -
  let ?ident = "rds_db_instance_identifier user_name"
  obtain r st1 where i: "invoke (DescribeDBInstances ?ident) (describe_db_instances P ?ident) st =
      (r, st1)"
    by (cases "invoke (DescribeDBInstances ?ident) (describe_db_instances P ?ident) st") auto
  note ev1 = invoke_events [OF i]
  show ?thesis
  proof (cases r)
    case (Inl e)
    with assms i have "attempt_run a = st1" by (auto simp: rds_describe_stage_def)
    with ev1 show ?thesis by simp
  next
    case (Inr ds)
    show ?thesis
    proof (cases ds)
      case Nil
      with assms i Inr have "attempt_run a = st1" by (auto simp: rds_describe_stage_def)
      with ev1 show ?thesis by simp
    next
      case (Cons d ds')
      show ?thesis
      proof (cases "DBInstanceClass d \<noteq> rds_db_instance_class")
        case True
        let ?st' = "py_print ''RDS: Instance class does not match.'' st1"
        from assms i Inr Cons True obtain y where
          rm: "remove_rds_database P user_name ?st' = Some y"
          by (cases "remove_rds_database P user_name ?st'") (auto simp: rds_describe_stage_def)
        from assms i Inr Cons True rm have "attempt_run a = snd y"
          by (cases y; cases "fst y") (auto simp: rds_describe_stage_def)
        moreover from remove_rds_database_prefix [OF rm]
        have "prefix (events st1) (events (snd y))"
          by (rule prefix_step [OF py_print_events])
        ultimately have "prefix (events st1) (events (attempt_run a))" by simp
        then show ?thesis by (rule prefix_step [OF ev1])
      next
        case False
        with assms i Inr Cons have "rds_deleting_stage P ?ident d st1 = Some a"
          by (simp add: rds_describe_stage_def)
        from rds_deleting_stage_prefix [OF this] show ?thesis by (rule prefix_step [OF ev1])
      qed
    qed
  qed
qed

lemma rds_attempt_first_event:
  assumes "rds_attempt P user_name security_group_id st = Some a"
  shows "prefix (events st @ [Call (CreateDBInstance (rds_create_request user_name security_group_id))])
           (events (attempt_run a))"
proof -
  let ?req = "rds_create_request user_name security_group_id"
  obtain r st1 where i: "invoke (CreateDBInstance ?req) (create_db_instance P ?req) st = (r, st1)"
    by (cases "invoke (CreateDBInstance ?req) (create_db_instance P ?req) st") auto
  note ev1 = invoke_events [OF i]
  have stage: "prefix (events st @ [Call (CreateDBInstance ?req)]) (events (attempt_run a))"
    if "rds_describe_stage P user_name (py_print msg st1) = Some a" for msg
  proof -
    from rds_describe_stage_prefix [OF that]
    have "prefix (events st1) (events (attempt_run a))"
      by (rule prefix_step [OF py_print_events])
    with ev1 show ?thesis by simp
  qed
  have raised: "prefix (events st @ [Call (CreateDBInstance ?req)]) (events (attempt_run a))"
    if "a = Raised e st1" for e
    using that ev1 by simp
  show ?thesis
  proof (cases r)
    case (Inr u)
    with assms i show ?thesis by (auto simp: rds_attempt_def Let_def intro: stage)
  next
    case (Inl e)
    show ?thesis
    proof (cases "e = ClientError ''DBInstanceAlreadyExists''")
      case True
      with assms i Inl show ?thesis by (auto simp: rds_attempt_def Let_def intro: stage)
    next
      case False
      with assms i Inl have "a = Raised e st1"
        by (cases e) (auto simp: rds_attempt_def Let_def)
      then show ?thesis by (rule raised)
    qed
  qed
qed

lemma rds_health_check_events:
  "rds_health_check P user_name host st1 = (h, st2) \<Longrightarrow>
   events st2 = events st1 @
     [Call (SetupDatabaseEngine host (rds_db_name user_name) rds_username rds_password),
      Call CheckDatabaseHealth]"
  by (auto simp: rds_health_check_def invoke_def invoke_unit_def split: prod.splits)

lemma setup_rds_loop_body_cases:
  assumes "rds_attempt P u sg st = Some a"
      and "(case Some a of
        None \<Rightarrow> None
      | Some (Raised e st1) \<Rightarrow> Some (Inl e, st1)
      | Some (Continue st1) \<Rightarrow> f P u sg st1
      | Some (Reached host st1) \<Rightarrow>
          (case rds_health_check P u host st1 of
             (database_health_status, st2) \<Rightarrow>
               if database_health_status \<in> set [''missing_table'', ''healthy'']
               then Some (Inr host,
                      py_print ''RDS: DB instance ready.''
                        (invoke_unit InitDatabase (init_database P)
                           (py_print (''Remote database health status: '' @ database_health_status) st2)))
               else if database_health_status \<in> set [''inconsistent_schema'', ''unknown_error'']
               then (case remove_rds_database P u
                            (py_print (''Remote database error: '' @ database_health_status @ ''. Removing RDS database...'') st2) of
                       None \<Rightarrow> None
                     | Some (Inl e, st3) \<Rightarrow> Some (Inl e, st3)
                     | Some (Inr _, st3) \<Rightarrow> f P u sg st3)
               else Some (Inr host, py_print ''RDS: DB instance ready.'' st2))) = Some y"
  shows "prefix (events (attempt_run a)) (events (snd y))
       \<or> (\<exists>st'. prefix (events (attempt_run a)) (events st') \<and> f P u sg st' = Some y)"
proof (cases a)
  case (Raised e st1)
  with assms(2) show ?thesis by auto
next
  case (Continue st1)
  with assms(2) have "f P u sg st1 = Some y" by simp
  with Continue show ?thesis by auto
next
  case (Reached host st1)
  obtain h st2 where hc: "rds_health_check P u host st1 = (h, st2)"
    by (cases "rds_health_check P u host st1") auto
  from rds_health_check_events [OF hc] have p2: "prefix (events st1) (events st2)"
    by simp
  consider (good) "h \<in> set [''missing_table'', ''healthy'']"
    | (bad) "h \<notin> set [''missing_table'', ''healthy'']"
        "h \<in> set [''inconsistent_schema'', ''unknown_error'']"
    | (other) "h \<notin> set [''missing_table'', ''healthy'']"
        "h \<notin> set [''inconsistent_schema'', ''unknown_error'']"
    by blast
  then show ?thesis
  proof cases
    case good
    from assms(2) have "snd y = py_print ''RDS: DB instance ready.''
        (invoke_unit InitDatabase (init_database P)
           (py_print (''Remote database health status: '' @ h) st2))"
      unfolding Reached option.case attempt.case hc prod.case if_P [OF good] by auto
    then have "prefix (events st2) (events (snd y))"
      by (simp add: py_print_def invoke_unit_def)
    with p2 Reached show ?thesis by (auto intro: prefix_order.trans)
  next
    case other
    from assms(2) have "snd y = py_print ''RDS: DB instance ready.'' st2"
      unfolding Reached option.case attempt.case hc prod.case if_not_P [OF other(1)]
        if_not_P [OF other(2)] by auto
    then have "prefix (events st2) (events (snd y))"
      by (simp add: py_print_def)
    with p2 Reached show ?thesis by (auto intro: prefix_order.trans)
  next
    case bad
    let ?st2' = "py_print (''Remote database error: '' @ h @ ''. Removing RDS database...'') st2"
    from assms(2) have body: "(case remove_rds_database P u ?st2' of
          None \<Rightarrow> None
        | Some (Inl e, st3) \<Rightarrow> Some (Inl e, st3)
        | Some (Inr _, st3) \<Rightarrow> f P u sg st3) = Some y"
      unfolding Reached option.case attempt.case hc prod.case if_not_P [OF bad(1)]
        if_P [OF bad(2)] .
    then obtain z where rm: "remove_rds_database P u ?st2' = Some z"
      by (cases "remove_rds_database P u ?st2'") auto
    from remove_rds_database_prefix [OF rm] have "prefix (events st2) (events (snd z))"
      by (rule prefix_step [OF py_print_events])
    with p2 Reached have p3: "prefix (events (attempt_run a)) (events (snd z))"
      by (auto intro: prefix_order.trans)
    obtain r st3 where z: "z = (r, st3)" by (cases z)
    show ?thesis
    proof (cases r)
      case (Inl e)
      with body rm z have "snd y = st3" by auto
      with p3 z show ?thesis by simp
    next
      case (Inr v)
      with body rm z have "f P u sg st3 = Some y" by simp
      with p3 z show ?thesis by auto
    qed
  qed
qed

lemma setup_rds_loop_first_event:
  assumes "setup_rds_loop P user_name security_group_id st = Some y"
  shows "prefix (events st @ [Call (CreateDBInstance (rds_create_request user_name security_group_id))])
           (events (snd y))"
proof -
  let ?Q = "\<lambda>x y. case x of
              (((P :: 'a provider, user_name), security_group_id), st :: 'a run) \<Rightarrow>
                prefix (events st @
                  [Call (CreateDBInstance (rds_create_request user_name security_group_id))])
                  (events (snd y))"
  have "?Q (((P, user_name), security_group_id), st) y"
  proof (rule setup_rds_loop.raw_induct [where Pa = ?Q, OF _ assms], goal_cases)
    case (1 f P u sg st y)
    let ?first = "events st @ [Call (CreateDBInstance (rds_create_request u sg))]"
    from 1(2) obtain a where att: "rds_attempt P u sg st = Some a"
      by (cases "rds_attempt P u sg st") simp_all
    note pre = rds_attempt_first_event [OF att]
    from setup_rds_loop_body_cases [where f = f and y = y, OF att 1(2) [unfolded att]]
    have "prefix (events (attempt_run a)) (events (snd y))
       \<or> (\<exists>st'. prefix (events (attempt_run a)) (events st') \<and> f P u sg st' = Some y)" .
    then have "prefix ?first (events (snd y))"
    proof (elim disjE exE conjE)
      assume "prefix (events (attempt_run a)) (events (snd y))"
      with pre show ?thesis by (rule prefix_order.trans)
    next
      fix st'
      assume p: "prefix (events (attempt_run a)) (events st')" and rec: "f P u sg st' = Some y"
      from 1(1) [OF rec] have "prefix (events st' @ [Call (CreateDBInstance (rds_create_request u sg))])
          (events (snd y))" by simp
      then have "prefix (events st') (events (snd y))" by (rule append_prefixD)
      with pre p show ?thesis by (meson prefix_order.trans)
    qed
    then show ?case by simp
  qed
  then show ?thesis by simp
qed

text \<open>
  A pass through the loop body that reaches the schema check has sent the creation
  request and then only described, paused and printed: it has sent no delete request
  and no second creation request. (A pass that decommissions the instance because of its
  class ends in \<open>continue\<close> or in an exception.)
\<close>

lemma rds_endpoint_stage_reached:
  "rds_endpoint_stage d st = Reached host st' \<Longrightarrow> st' = st"
  by (cases "Endpoint d") (simp_all add: rds_endpoint_stage_def)

lemma rds_creating_stage_reached:
  assumes "rds_creating_stage P ident d st = Some (Reached host st')"
  shows "\<exists>es. events st' = events st @ es \<and> set es \<subseteq> poll_calls ident \<union> range Print"
proof (cases "DBInstanceStatus d = ''creating''")
  case False
  with assms have "st' = st"
    by (auto simp: rds_creating_stage_def dest: rds_endpoint_stage_reached)
  then show ?thesis by simp
next
  case True
  let ?msg = "''RDS: Waiting for newly created database to be available. This might take a couple minutes...''"
  from assms True obtain r st1 where
    p: "poll_while_status P ident ''creating'' d (py_print ?msg st) = Some (r, st1)"
    by (cases "poll_while_status P ident ''creating'' d (py_print ?msg st)")
      (auto simp: rds_creating_stage_def)
  from poll_while_status_events [OF p] obtain es where
    es: "events st1 = events (py_print ?msg st) @ es" "set es \<subseteq> poll_calls ident"
    by auto
  from assms True p have "st' = st1"
    by (cases r) (auto simp: rds_creating_stage_def dest: rds_endpoint_stage_reached)
  with es show ?thesis
    by (intro exI [of _ "Print ?msg # es"]) (auto simp: py_print_def)
qed

lemma rds_deleting_stage_reached:
  assumes "rds_deleting_stage P ident d st = Some (Reached host st')"
  shows "\<exists>es. events st' = events st @ es \<and> set es \<subseteq> poll_calls ident \<union> range Print"
proof (cases "DBInstanceStatus d = ''deleting''")
  case False
  with assms have "rds_creating_stage P ident d st = Some (Reached host st')"
    by (simp add: rds_deleting_stage_def)
  then show ?thesis by (rule rds_creating_stage_reached)
next
  case True
  let ?msg = "''RDS: Waiting for previous delete operation to complete. This might take a couple minutes...''"
  from assms True obtain r st1 where
    p: "poll_while_status P ident ''deleting'' d (py_print ?msg st) = Some (r, st1)"
    by (cases "poll_while_status P ident ''deleting'' d (py_print ?msg st)")
      (auto simp: rds_deleting_stage_def)
  from poll_while_status_events [OF p] obtain es where
    es: "events st1 = events (py_print ?msg st) @ es" "set es \<subseteq> poll_calls ident"
    by auto
  from assms True p obtain d' where
    "rds_creating_stage P ident d' st1 = Some (Reached host st')"
    by (cases r) (auto simp: rds_deleting_stage_def split: if_splits)
  from rds_creating_stage_reached [OF this] obtain es' where
    es': "events st' = events st1 @ es'" "set es' \<subseteq> poll_calls ident \<union> range Print"
    by auto
  from es es' show ?thesis
    by (intro exI [of _ "Print ?msg # es @ es'"]) (auto simp: py_print_def)
qed

lemma rds_describe_stage_reached:
  assumes "rds_describe_stage P user_name st = Some (Reached host st')"
  shows "\<exists>es. events st' = events st @ es
              \<and> set es \<subseteq> poll_calls (rds_db_instance_identifier user_name) \<union> range Print"
proof -
  let ?ident = "rds_db_instance_identifier user_name"
  obtain r st1 where
    i: "invoke (DescribeDBInstances ?ident) (describe_db_instances P ?ident) st = (r, st1)"
    by (cases "invoke (DescribeDBInstances ?ident) (describe_db_instances P ?ident) st") auto
  note ev1 = invoke_events [OF i]
  from assms i obtain d ds where r: "r = Inr (d # ds)"
    by (cases r; cases "projr r") (auto simp: rds_describe_stage_def)
  have "DBInstanceClass d = rds_db_instance_class"
  proof (rule ccontr)
    assume "DBInstanceClass d \<noteq> rds_db_instance_class"
    with assms i r show False
      by (auto simp: rds_describe_stage_def split: option.splits sum.splits)
  qed
  with assms i r have "rds_deleting_stage P ?ident d st1 = Some (Reached host st')"
    by (simp add: rds_describe_stage_def)
  from rds_deleting_stage_reached [OF this] obtain es where
    es: "events st' = events st1 @ es" "set es \<subseteq> poll_calls ?ident \<union> range Print"
    by auto
  with ev1 show ?thesis
    by (intro exI [of _ "Call (DescribeDBInstances ?ident) # es"]) (auto simp: poll_calls_def)
qed

lemma rds_attempt_reached:
  assumes "rds_attempt P user_name security_group_id st = Some (Reached host st')"
  shows "\<exists>es. events st' =
                events st @
                  Call (CreateDBInstance (rds_create_request user_name security_group_id)) # es
              \<and> set es \<subseteq> poll_calls (rds_db_instance_identifier user_name) \<union> range Print"
proof -
  let ?req = "rds_create_request user_name security_group_id"
  let ?ident = "rds_db_instance_identifier user_name"
  obtain r st1 where
    i: "invoke (CreateDBInstance ?req) (create_db_instance P ?req) st = (r, st1)"
    by (cases "invoke (CreateDBInstance ?req) (create_db_instance P ?req) st") auto
  note ev1 = invoke_events [OF i]
  have "\<exists>msg. rds_describe_stage P user_name (py_print msg st1) = Some (Reached host st')"
  proof (cases r)
    case (Inr u)
    with assms i show ?thesis by (auto simp: rds_attempt_def Let_def)
  next
    case (Inl e)
    show ?thesis
    proof (cases "e = ClientError ''DBInstanceAlreadyExists''")
      case True
      with assms i Inl show ?thesis by (auto simp: rds_attempt_def Let_def)
    next
      case False
      with assms i Inl show ?thesis by (cases e) (auto simp: rds_attempt_def Let_def)
    qed
  qed
  then obtain msg where
    "rds_describe_stage P user_name (py_print msg st1) = Some (Reached host st')" ..
  from rds_describe_stage_reached [OF this] obtain es where
    es: "events st' = events (py_print msg st1) @ es" "set es \<subseteq> poll_calls ?ident \<union> range Print"
    by auto
  with ev1 show ?thesis
    by (intro exI [of _ "Print msg # es"]) (auto simp: py_print_def)
qed

lemma decommission_events_exclude:
  "Call CheckDatabaseHealth \<notin> decommission_events ident"
  "Call InitDatabase \<notin> decommission_events ident"
  "Call (CreateDBInstance req) \<notin> decommission_events ident"
  by (auto simp: decommission_events_def)

lemma poll_calls_exclude:
  "Call CheckDatabaseHealth \<notin> poll_calls ident \<union> range Print"
  "Call InitDatabase \<notin> poll_calls ident \<union> range Print"
  "Call (CreateDBInstance req) \<notin> poll_calls ident \<union> range Print"
  "Call (DeleteDBInstance ident') \<notin> poll_calls ident \<union> range Print"
  by (auto simp: poll_calls_def)

text \<open>
  Claim C1, amended. Take a pass through the loop of \<open>setup_rds\<close> that reaches the
  schema check (lines 179--180) with endpoint host \<open>host\<close>, and let the check report
  \<open>database_health_status\<close>.

  \<^item> If the report is \<open>healthy\<close> or \<open>missing_table\<close>, the run initialises the schema and
    returns \<open>host\<close>: after the check it prints the status, calls \<open>init_database\<close>,
    prints that the instance is ready, and the loop ends.
  \<^item> If the report is \<open>inconsistent_schema\<close> or \<open>unknown_error\<close>, the run prints the
    error and calls \<open>remove_rds_database\<close>; when that call returns normally, the run goes
    on as the loop started afresh in the state the call left (an exception of the call
    leaves \<open>setup_rds\<close>, and a call that never returns leaves it hanging).
  \<^item> Whatever the call returns, its first event is the describe request; when the
    provider reports the instance and the instance is not being deleted already, the
    delete request follows at once; the rest are describe requests, pauses and printed
    lines, so the call sends at most one delete request and no creation request, no
    schema check and no initialisation.
  \<^item> Every run of the restarted loop that returns has the creation request of lines
    121--134 as its first event. When the first pass of the restarted loop reaches the
    schema check, it has sent that one creation request and otherwise only described,
    paused and printed. So in this case exactly one creation request and at most one
    delete request stand between the two schema checks.

  The statement does not say that the delete request is accepted, nor that the first
  pass of the restarted loop reaches the schema check: see the runs after the theorem.
\<close>

theorem setup_rds_loop_health_outcomes:
  assumes reached: "rds_attempt P user_name security_group_id st = Some (Reached host st1)"
      and checked: "rds_health_check P user_name host st1 = (database_health_status, st2)"
  shows
    "(database_health_status = ''healthy'' \<or> database_health_status = ''missing_table'' \<longrightarrow>
        setup_rds_loop P user_name security_group_id st =
          Some (Inr host,
                \<lparr>world = init_database P (world st2),
                 events = events st2 @
                   [Print (''Remote database health status: '' @ database_health_status),
                    Call InitDatabase,
                    Print ''RDS: DB instance ready.'']\<rparr>))
     \<and> (database_health_status = ''inconsistent_schema''
          \<or> database_health_status = ''unknown_error'' \<longrightarrow>
        setup_rds_loop P user_name security_group_id st =
          (case remove_rds_database P user_name
                  (py_print (''Remote database error: '' @ database_health_status
                             @ ''. Removing RDS database...'') st2) of
             None \<Rightarrow> None
           | Some (Inl e, st3) \<Rightarrow> Some (Inl e, st3)
           | Some (Inr u, st3) \<Rightarrow> setup_rds_loop P user_name security_group_id st3)
        \<and> (\<forall>r st3.
              remove_rds_database P user_name
                (py_print (''Remote database error: '' @ database_health_status
                           @ ''. Removing RDS database...'') st2) = Some (r, st3) \<longrightarrow>
              (\<exists>es. events st3 =
                      events st2 @
                        Print (''Remote database error: '' @ database_health_status
                               @ ''. Removing RDS database...'')
                        # Call (DescribeDBInstances (rds_db_instance_identifier user_name))
                        # es
                    \<and> set es \<subseteq> decommission_events (rds_db_instance_identifier user_name)
                    \<and> length (filter
                         ((=) (Call (DeleteDBInstance (rds_db_instance_identifier user_name))))
                         es) \<le> 1
                    \<and> (\<forall>d ds w.
                          describe_db_instances P (rds_db_instance_identifier user_name)
                            (world st2) = (Inr (d # ds), w)
                          \<and> DBInstanceStatus d \<noteq> ''deleting'' \<longrightarrow>
                          (\<exists>es'. es =
                             Call (DeleteDBInstance (rds_db_instance_identifier user_name))
                             # es')))
              \<and> (\<forall>host' st4.
                    rds_attempt P user_name security_group_id st3 = Some (Reached host' st4) \<longrightarrow>
                    (\<exists>es. events st4 =
                            events st3 @
                              Call (CreateDBInstance
                                      (rds_create_request user_name security_group_id))
                              # es
                          \<and> set es \<subseteq>
                              poll_calls (rds_db_instance_identifier user_name) \<union> range Print))
              \<and> (\<forall>y. setup_rds_loop P user_name security_group_id st3 = Some y \<longrightarrow>
                    prefix
                      (events st3 @
                         [Call (CreateDBInstance
                                  (rds_create_request user_name security_group_id))])
                      (events (snd y)))))"
proof (intro conjI impI allI)
  assume "database_health_status = ''healthy'' \<or> database_health_status = ''missing_table''"
  then have good: "database_health_status \<in> set [''missing_table'', ''healthy'']"
    by auto
  show "setup_rds_loop P user_name security_group_id st =
          Some (Inr host,
                \<lparr>world = init_database P (world st2),
                 events = events st2 @
                   [Print (''Remote database health status: '' @ database_health_status),
                    Call InitDatabase,
                    Print ''RDS: DB instance ready.'']\<rparr>)"
    by (subst setup_rds_loop.simps)
      (simp only: reached checked option.case attempt.case prod.case if_P [OF good],
        simp add: py_print_def invoke_unit_def)
next
  assume "database_health_status = ''inconsistent_schema''
          \<or> database_health_status = ''unknown_error''"
  then have not_good: "database_health_status \<notin> set [''missing_table'', ''healthy'']"
    and bad: "database_health_status \<in> set [''inconsistent_schema'', ''unknown_error'']"
    by auto
  show "setup_rds_loop P user_name security_group_id st =
          (case remove_rds_database P user_name
                  (py_print (''Remote database error: '' @ database_health_status
                             @ ''. Removing RDS database...'') st2) of
             None \<Rightarrow> None
           | Some (Inl e, st3) \<Rightarrow> Some (Inl e, st3)
           | Some (Inr u, st3) \<Rightarrow> setup_rds_loop P user_name security_group_id st3)"
    by (subst setup_rds_loop.simps)
      (simp only: reached checked option.case attempt.case prod.case if_not_P [OF not_good]
        if_P [OF bad])
next
  fix r st3
  let ?msg = "''Remote database error: '' @ database_health_status
                @ ''. Removing RDS database...''"
  let ?ident = "rds_db_instance_identifier user_name"
  assume rm: "remove_rds_database P user_name (py_print ?msg st2) = Some (r, st3)"
  from remove_rds_database_trace [OF rm] obtain es where
    es: "events st3 = events (py_print ?msg st2) @ Call (DescribeDBInstances ?ident) # es"
      "set es \<subseteq> decommission_events ?ident"
      "length (filter ((=) (Call (DeleteDBInstance ?ident))) es) \<le> 1"
      "\<forall>d ds w. describe_db_instances P ?ident (world (py_print ?msg st2)) = (Inr (d # ds), w)
          \<and> DBInstanceStatus d \<noteq> ''deleting'' \<longrightarrow>
          (\<exists>es'. es = Call (DeleteDBInstance ?ident) # es')"
    unfolding snd_conv by (elim exE conjE) (rule that)
  have w: "world (py_print ?msg st2) = world st2"
    by (simp add: py_print_def)
  from es(1) have "events st3 = events st2 @ Print ?msg # Call (DescribeDBInstances ?ident) # es"
    by (simp add: py_print_def)
  with es(2,3) es(4) [unfolded w]
  show "\<exists>es. events st3 = events st2 @ Print ?msg # Call (DescribeDBInstances ?ident) # es
            \<and> set es \<subseteq> decommission_events ?ident
            \<and> length (filter ((=) (Call (DeleteDBInstance ?ident))) es) \<le> 1
            \<and> (\<forall>d ds w. describe_db_instances P ?ident (world st2) = (Inr (d # ds), w)
                  \<and> DBInstanceStatus d \<noteq> ''deleting'' \<longrightarrow>
                  (\<exists>es'. es = Call (DeleteDBInstance ?ident) # es'))"
    by (intro exI [of _ es] conjI)
next
  fix r st3 host' st4
  assume "rds_attempt P user_name security_group_id st3 = Some (Reached host' st4)"
  then show "\<exists>es. events st4 =
                events st3 @
                  Call (CreateDBInstance (rds_create_request user_name security_group_id)) # es
              \<and> set es \<subseteq> poll_calls (rds_db_instance_identifier user_name) \<union> range Print"
    by (rule rds_attempt_reached)
next
  fix r st3 y
  assume "setup_rds_loop P user_name security_group_id st3 = Some y"
  then show "prefix
      (events st3 @ [Call (CreateDBInstance (rds_create_request user_name security_group_id))])
      (events (snd y))"
    by (rule setup_rds_loop_first_event)
qed

theorem setup_rds_loop_health_outcomes_witness:
  "setup_rds_loop cloud_provider ''bob'' (Some ''sg-1'') (start empty_cloud) =
     Some (Inr ''db.example.org'',
           \<lparr>world = empty_cloud\<lparr>db := Some available_instance\<rparr>,
            events =
              [Call (CreateDBInstance (rds_create_request ''bob'' (Some ''sg-1''))),
               Print ''RDS: Starting RDS instance...'',
               Call (DescribeDBInstances ''parlai-mturk-db-bob''),
               Print ''RDS: Waiting for newly created database to be available. This might take a couple minutes...'',
               Call (Sleep 5),
               Call (DescribeDBInstances ''parlai-mturk-db-bob''),
               Call (SetupDatabaseEngine ''db.example.org'' ''parlai_mturk_db_bob''
                       ''parlai_user'' ''parlai_user_password''),
               Call CheckDatabaseHealth,
               Print ''Remote database health status: healthy'',
               Call InitDatabase,
               Print ''RDS: DB instance ready.'']\<rparr>)
   \<and> setup_rds_loop cloud_provider ''bob'' (Some ''sg-1'')
       (start (empty_cloud\<lparr>health_reports := [''inconsistent_schema'']\<rparr>)) =
     Some (Inr ''db.example.org'',
           \<lparr>world = empty_cloud\<lparr>db := Some available_instance\<rparr>,
            events =
              [Call (CreateDBInstance (rds_create_request ''bob'' (Some ''sg-1''))),
               Print ''RDS: Starting RDS instance...'',
               Call (DescribeDBInstances ''parlai-mturk-db-bob''),
               Print ''RDS: Waiting for newly created database to be available. This might take a couple minutes...'',
               Call (Sleep 5),
               Call (DescribeDBInstances ''parlai-mturk-db-bob''),
               Call (SetupDatabaseEngine ''db.example.org'' ''parlai_mturk_db_bob''
                       ''parlai_user'' ''parlai_user_password''),
               Call CheckDatabaseHealth,
               Print ''Remote database error: inconsistent_schema. Removing RDS database...'',
               Call (DescribeDBInstances ''parlai-mturk-db-bob''),
               Call (DeleteDBInstance ''parlai-mturk-db-bob''),
               Call (DescribeDBInstances ''parlai-mturk-db-bob''),
               Print ''RDS: Deleting database. This might take a couple minutes...'',
               Call (Sleep 5),
               Call (DescribeDBInstances ''parlai-mturk-db-bob''),
               Print ''RDS: Database deleted.'',
               Call (CreateDBInstance (rds_create_request ''bob'' (Some ''sg-1''))),
               Print ''RDS: Starting RDS instance...'',
               Call (DescribeDBInstances ''parlai-mturk-db-bob''),
               Print ''RDS: Waiting for newly created database to be available. This might take a couple minutes...'',
               Call (Sleep 5),
               Call (DescribeDBInstances ''parlai-mturk-db-bob''),
               Call (SetupDatabaseEngine ''db.example.org'' ''parlai_mturk_db_bob''
                       ''parlai_user'' ''parlai_user_password''),
               Call CheckDatabaseHealth,
               Print ''Remote database health status: healthy'',
               Call InitDatabase,
               Print ''RDS: DB instance ready.'']\<rparr>)"
proof -
  let ?create = "Call (CreateDBInstance (rds_create_request ''bob'' (Some ''sg-1'')))"
  let ?describe = "Call (DescribeDBInstances ''parlai-mturk-db-bob'')"
  let ?attempt_events =
    "[?create,
      Print ''RDS: Starting RDS instance...'',
      ?describe,
      Print ''RDS: Waiting for newly created database to be available. This might take a couple minutes...'',
      Call (Sleep 5),
      ?describe]"
  let ?check_events =
    "?attempt_events @
       [Call (SetupDatabaseEngine ''db.example.org'' ''parlai_mturk_db_bob''
                ''parlai_user'' ''parlai_user_password''),
        Call CheckDatabaseHealth]"
  let ?ready_events =
    "[Print ''Remote database health status: healthy'',
      Call InitDatabase,
      Print ''RDS: DB instance ready.'']"

  \<comment> \<open>The schema check reports \<open>healthy\<close>.\<close>
  let ?g1 = "\<lparr>world = empty_cloud\<lparr>db := Some available_instance\<rparr>, events = ?attempt_events\<rparr>"
  let ?g2 = "\<lparr>world = empty_cloud\<lparr>db := Some available_instance\<rparr>, events = ?check_events\<rparr>"
  have reached_good:
    "rds_attempt cloud_provider ''bob'' (Some ''sg-1'') (start empty_cloud) =
       Some (Reached ''db.example.org'' ?g1)"
    by code_simp
  have checked_good:
    "rds_health_check cloud_provider ''bob'' ''db.example.org'' ?g1 = (''healthy'', ?g2)"
    by code_simp
  from setup_rds_loop_health_outcomes [OF reached_good checked_good]
  have "setup_rds_loop cloud_provider ''bob'' (Some ''sg-1'') (start empty_cloud) =
      Some (Inr ''db.example.org'',
            \<lparr>world = init_database cloud_provider (world ?g2),
             events = events ?g2 @
               [Print (''Remote database health status: '' @ ''healthy''),
                Call InitDatabase,
                Print ''RDS: DB instance ready.'']\<rparr>)"
    by blast
  then have good: "setup_rds_loop cloud_provider ''bob'' (Some ''sg-1'') (start empty_cloud) =
      Some (Inr ''db.example.org'',
            \<lparr>world = empty_cloud\<lparr>db := Some available_instance\<rparr>,
             events = ?check_events @ ?ready_events\<rparr>)"
    by (simp add: cloud_provider_def)

  \<comment> \<open>The schema check reports \<open>inconsistent_schema\<close>, then \<open>healthy\<close>.\<close>
  let ?c0 = "empty_cloud\<lparr>health_reports := [''inconsistent_schema'']\<rparr>"
  let ?msg = "''Remote database error: '' @ ''inconsistent_schema''
                @ ''. Removing RDS database...''"
  let ?b1 = "\<lparr>world = ?c0\<lparr>db := Some available_instance\<rparr>, events = ?attempt_events\<rparr>"
  let ?b2 = "\<lparr>world = empty_cloud\<lparr>db := Some available_instance\<rparr>, events = ?check_events\<rparr>"
  let ?decommission_events =
    "[Print ''Remote database error: inconsistent_schema. Removing RDS database...'',
      ?describe,
      Call (DeleteDBInstance ''parlai-mturk-db-bob''),
      ?describe,
      Print ''RDS: Deleting database. This might take a couple minutes...'',
      Call (Sleep 5),
      ?describe,
      Print ''RDS: Database deleted.'']"
  let ?b3 = "\<lparr>world = empty_cloud, events = ?check_events @ ?decommission_events\<rparr>"
  have reached_bad:
    "rds_attempt cloud_provider ''bob'' (Some ''sg-1'') (start ?c0) =
       Some (Reached ''db.example.org'' ?b1)"
    by code_simp
  have checked_bad:
    "rds_health_check cloud_provider ''bob'' ''db.example.org'' ?b1 =
       (''inconsistent_schema'', ?b2)"
    by code_simp
  have removed:
    "remove_rds_database cloud_provider ''bob'' (py_print ?msg ?b2) = Some (Inr (), ?b3)"
    by code_simp
  have restarted:
    "setup_rds_loop cloud_provider ''bob'' (Some ''sg-1'') ?b3 =
       Some (Inr ''db.example.org'',
             \<lparr>world = empty_cloud\<lparr>db := Some available_instance\<rparr>,
              events = ?check_events @ ?decommission_events @ ?check_events @ ?ready_events\<rparr>)"
    by code_simp
  from setup_rds_loop_health_outcomes [OF reached_bad checked_bad]
  have "setup_rds_loop cloud_provider ''bob'' (Some ''sg-1'') (start ?c0) =
      (case remove_rds_database cloud_provider ''bob'' (py_print ?msg ?b2) of
         None \<Rightarrow> None
       | Some (Inl e, st3) \<Rightarrow> Some (Inl e, st3)
       | Some (Inr u, st3) \<Rightarrow> setup_rds_loop cloud_provider ''bob'' (Some ''sg-1'') st3)"
    by blast
  then have bad: "setup_rds_loop cloud_provider ''bob'' (Some ''sg-1'') (start ?c0) =
      Some (Inr ''db.example.org'',
            \<lparr>world = empty_cloud\<lparr>db := Some available_instance\<rparr>,
             events = ?check_events @ ?decommission_events @ ?check_events @ ?ready_events\<rparr>)"
    by (simp only: removed restarted option.case prod.case sum.case)
  from good bad show ?thesis by simp
qed

text \<open>
  The claim as it stands, with exactly one decommission-and-recreate cycle before the
  next schema check, does not hold for every provider.

  \<^item> On the provider that refuses the delete request, the handler of lines 229--230
    takes the refusal for an absent instance. After \<open>unknown_error\<close> the instance is
    neither decommissioned nor created again: the creation request is answered with
    \<open>DBInstanceAlreadyExists\<close>, the schema of the same instance is checked again, and
    the run returns its host.
  \<^item> On the scripted provider the instance that replaces the decommissioned one has
    another instance class. Lines 146--150 decommission it and restart, so two delete
    requests and two creation requests stand between the two schema checks.
\<close>

theorem setup_rds_loop_cycle_counterexample:
  "setup_rds_loop refusing_provider ''bob'' (Some ''sg-1'')
     (start (empty_cloud\<lparr>health_reports := [''unknown_error'']\<rparr>)) =
     Some (Inr ''db.example.org'',
           \<lparr>world = empty_cloud\<lparr>db := Some available_instance\<rparr>,
            events =
              [Call (CreateDBInstance (rds_create_request ''bob'' (Some ''sg-1''))),
               Print ''RDS: Starting RDS instance...'',
               Call (DescribeDBInstances ''parlai-mturk-db-bob''),
               Print ''RDS: Waiting for newly created database to be available. This might take a couple minutes...'',
               Call (Sleep 5),
               Call (DescribeDBInstances ''parlai-mturk-db-bob''),
               Call (SetupDatabaseEngine ''db.example.org'' ''parlai_mturk_db_bob''
                       ''parlai_user'' ''parlai_user_password''),
               Call CheckDatabaseHealth,
               Print ''Remote database error: unknown_error. Removing RDS database...'',
               Call (DescribeDBInstances ''parlai-mturk-db-bob''),
               Call (DeleteDBInstance ''parlai-mturk-db-bob''),
               Print ''RDS: Database doesn't exist.'',
               Call (CreateDBInstance (rds_create_request ''bob'' (Some ''sg-1''))),
               Print ''RDS: DB instance already exists.'',
               Call (DescribeDBInstances ''parlai-mturk-db-bob''),
               Call (SetupDatabaseEngine ''db.example.org'' ''parlai_mturk_db_bob''
                       ''parlai_user'' ''parlai_user_password''),
               Call CheckDatabaseHealth,
               Print ''Remote database health status: healthy'',
               Call InitDatabase,
               Print ''RDS: DB instance ready.'']\<rparr>)
   \<and> setup_rds_loop script_provider ''bob'' (Some ''sg-1'') (start class_mismatch_script) =
     Some (Inr ''db.example.org'',
           \<lparr>world = \<lparr>describe_replies = [], health_replies = []\<rparr>,
            events =
              [Call (CreateDBInstance (rds_create_request ''bob'' (Some ''sg-1''))),
               Print ''RDS: Starting RDS instance...'',
               Call (DescribeDBInstances ''parlai-mturk-db-bob''),
               Call (SetupDatabaseEngine ''db.example.org'' ''parlai_mturk_db_bob''
                       ''parlai_user'' ''parlai_user_password''),
               Call CheckDatabaseHealth,
               Print ''Remote database error: inconsistent_schema. Removing RDS database...'',
               Call (DescribeDBInstances ''parlai-mturk-db-bob''),
               Call (DeleteDBInstance ''parlai-mturk-db-bob''),
               Call (DescribeDBInstances ''parlai-mturk-db-bob''),
               Print ''RDS: Deleting database. This might take a couple minutes...'',
               Call (Sleep 5),
               Call (DescribeDBInstances ''parlai-mturk-db-bob''),
               Print ''RDS: Database deleted.'',
               Call (CreateDBInstance (rds_create_request ''bob'' (Some ''sg-1''))),
               Print ''RDS: Starting RDS instance...'',
               Call (DescribeDBInstances ''parlai-mturk-db-bob''),
               Print ''RDS: Instance class does not match.'',
               Call (DescribeDBInstances ''parlai-mturk-db-bob''),
               Call (DeleteDBInstance ''parlai-mturk-db-bob''),
               Call (DescribeDBInstances ''parlai-mturk-db-bob''),
               Print ''RDS: Database doesn't exist.'',
               Call (CreateDBInstance (rds_create_request ''bob'' (Some ''sg-1''))),
               Print ''RDS: Starting RDS instance...'',
               Call (DescribeDBInstances ''parlai-mturk-db-bob''),
               Call (SetupDatabaseEngine ''db.example.org'' ''parlai_mturk_db_bob''
                       ''parlai_user'' ''parlai_user_password''),
               Call CheckDatabaseHealth,
               Print ''Remote database health status: healthy'',
               Call InitDatabase,
               Print ''RDS: DB instance ready.'']\<rparr>)"
  by code_simp

end
